theory Spec2Isabelle
  imports Complex_Main
begin

section \<open>Python and numpy primitives\<close>

text \<open>
  The simulation driver \<^verbatim>\<open>ares/simulations/Global21cm.py\<close> is Python 2 over numpy.
  Floating-point numbers are modelled by \<^typ>\<open>real\<close>: rounding, overflow and NaN or
  infinity in the \<^emph>\<open>inputs\<close> are outside the model. The two places where the code itself
  can produce a non-finite value from finite data (a division by zero in the relative
  error, the mean of an empty array) are modelled by \<open>npfloat\<close> below.
  Every exception the modelled code can raise is a value of \<open>error\<close>.
\<close>

datatype error =
    AttributeError | KeyError | IndexError | ValueError | TypeError
  | UnboundLocalError | IOError | NotImplementedError | ImportError | ZeroDivisionError

datatype npfloat = Finite real | PosInf | NaN

text \<open>\<^verbatim>\<open>d[key]\<close> on a dict: a missing key raises \<^verbatim>\<open>KeyError\<close>.\<close>

definition getitem :: "('k \<rightharpoonup> 'v) \<Rightarrow> 'k \<Rightarrow> error + 'v" where
  "getitem d k = (case d k of None \<Rightarrow> Inl KeyError | Some v \<Rightarrow> Inr v)"

text \<open>Sequencing: an exception raised by one statement skips those that follow.\<close>

definition ebind :: "error + 'a \<Rightarrow> ('a \<Rightarrow> error + 'b) \<Rightarrow> error + 'b" where
  "ebind m f = (case m of Inl err \<Rightarrow> Inl err | Inr x \<Rightarrow> f x)"

text \<open>
  \<^verbatim>\<open>np.interp(x, xp, fp)\<close>: piecewise-linear interpolation, constant beyond both ends.
  numpy raises \<^verbatim>\<open>ValueError\<close> for an empty \<^verbatim>\<open>xp\<close> and when \<^verbatim>\<open>fp\<close> and \<^verbatim>\<open>xp\<close> differ in
  length. It locates the interval \<open>xp[j] \<le> x < xp[j+1]\<close> by binary search and does not
  check that \<^verbatim>\<open>xp\<close> increases; \<open>interp_scan\<close> finds the same interval by a linear scan,
  so the model is numpy's function on non-decreasing sample points (on others numpy
  documents its own result as meaningless).
\<close>

fun interp_scan :: "real \<Rightarrow> (real \<times> real) list \<Rightarrow> real" where
  "interp_scan x [] = 0"
| "interp_scan x [(x0, y0)] = y0"
| "interp_scan x ((x0, y0) # (x1, y1) # ps) =
     (if x < x1 then (if x = x0 then y0 else (y1 - y0) / (x1 - x0) * (x - x0) + y0)
      else interp_scan x ((x1, y1) # ps))"

definition interp_at :: "real list \<Rightarrow> real list \<Rightarrow> real \<Rightarrow> real" where
  "interp_at xp fp x = (if x < hd xp then hd fp else interp_scan x (zip xp fp))"

definition np_interp :: "real list \<Rightarrow> real list \<Rightarrow> real list \<Rightarrow> error + real list" where
  "np_interp xs xp fp =
     (if xp = [] then Inl ValueError
      else if length fp \<noteq> length xp then Inl ValueError
      else Inr (map (interp_at xp fp) xs))"

text \<open>\<^verbatim>\<open>np.where(mask)\<close>: the indices at which a boolean array is true.\<close>

definition np_where :: "bool list \<Rightarrow> nat list" where
  "np_where bs = filter (\<lambda>i. bs ! i) [0..<length bs]"

text \<open>\<^verbatim>\<open>a[idx]\<close> with an index array: an index beyond the array raises \<^verbatim>\<open>IndexError\<close>.\<close>

definition np_take :: "'a list \<Rightarrow> nat list \<Rightarrow> error + 'a list" where
  "np_take a idx =
     (if list_all (\<lambda>i. i < length a) idx then Inr (map (\<lambda>i. a ! i) idx)
      else Inl IndexError)"

text \<open>
  \<^verbatim>\<open>np.abs((a - b) / a)\<close> elementwise, for arrays of one length. numpy divides by zero
  without raising: \<open>0/0\<close> is NaN, anything else over zero is infinite.
\<close>

definition rel_err :: "real \<Rightarrow> real \<Rightarrow> npfloat" where
  "rel_err a b =
     (if a = 0 then (if a - b = 0 then NaN else PosInf) else Finite \<bar>(a - b) / a\<bar>)"

text \<open>
  \<^verbatim>\<open>arr.mean()\<close>: NaN for an empty array (numpy only warns), NaN as soon as one element
  is, infinite when one element is and none is NaN.
\<close>

fun finite_part :: "npfloat \<Rightarrow> real" where
  "finite_part (Finite x) = x"
| "finite_part PosInf = 0"
| "finite_part NaN = 0"

definition np_mean :: "npfloat list \<Rightarrow> npfloat" where
  "np_mean xs =
     (if xs = [] then NaN
      else if NaN \<in> set xs then NaN
      else if PosInf \<in> set xs then PosInf
      else Finite (sum_list (map finite_part xs) / real (length xs)))"

text \<open>Python's \<open>>\<close> and \<open><\<close> between a numpy float and a finite number.\<close>

fun np_gt :: "npfloat \<Rightarrow> real \<Rightarrow> bool" where
  "np_gt (Finite x) r = (x > r)"
| "np_gt PosInf r = True"
| "np_gt NaN r = False"

fun np_lt :: "npfloat \<Rightarrow> real \<Rightarrow> bool" where
  "np_lt (Finite x) r = (x < r)"
| "np_lt PosInf r = False"
| "np_lt NaN r = False"

text \<open>
  \<^verbatim>\<open>np.allclose(a, b, rtol, atol)\<close> on finite arrays of one length:
  \<open>|a - b| \<le> atol + rtol * |b|\<close> at every index.
\<close>

definition np_allclose :: "real list \<Rightarrow> real list \<Rightarrow> real \<Rightarrow> real \<Rightarrow> bool" where
  "np_allclose a b rtol atol =
     list_all (\<lambda>(x, y). \<bar>x - y\<bar> \<le> atol + rtol * \<bar>y\<bar>) (zip a b)"

text \<open>\<^verbatim>\<open>np.minimum\<close>, \<^verbatim>\<open>np.maximum.accumulate\<close> and \<^verbatim>\<open>np.mean([a, b], axis=0)\<close>.\<close>

definition np_minimum :: "real list \<Rightarrow> real list \<Rightarrow> real list" where
  "np_minimum a b = map (\<lambda>(x, y). min x y) (zip a b)"

fun accumulate_from :: "real \<Rightarrow> real list \<Rightarrow> real list" where
  "accumulate_from m [] = []"
| "accumulate_from m (x # xs) = max m x # accumulate_from (max m x) xs"

fun np_maximum_accumulate :: "real list \<Rightarrow> real list" where
  "np_maximum_accumulate [] = []"
| "np_maximum_accumulate (x # xs) = x # accumulate_from x xs"

fun column_sums :: "real list list \<Rightarrow> real list" where
  "column_sums [] = []"
| "column_sums [r] = r"
| "column_sums (r # rs) = map (\<lambda>(x, y). x + y) (zip r (column_sums rs))"

definition np_mean_axis0 :: "real list list \<Rightarrow> real list" where
  "np_mean_axis0 rows = map (\<lambda>t. t / real (length rows)) (column_sums rows)"

section \<open>Data model\<close>

text \<open>
  A history table maps a field name to its time series. A step record's zone data maps
  a field name to the value in the zone's single cell (the two-zone model has one cell per
  zone; the one-element arrays of the source are modelled by their element).
\<close>

type_synonym history = "string \<rightharpoonup> real list"
type_synonym data = "string \<rightharpoonup> real"
type_synonym fluxes = "real list list"

text \<open>
  Values of the keyword-argument dict. An object instance (the opacity solver, a spectral
  synthesis model, the halo-mass-function table) is its identity.
\<close>

datatype pyval =
    PNone | PBool bool | PInt int | PReal real | PStr string
  | PFun "real \<Rightarrow> real" | PInstance nat

type_synonym kwargs_t = "string \<rightharpoonup> pyval"

text \<open>
  The two feedback options that are \<^verbatim>\<open>None\<close>, a name or value, or a user function.
  A user function takes the redshift array and is applied elementwise.
\<close>

datatype Mmin_option = MminNone | MminName string | MminFunction "real \<Rightarrow> real"
datatype fsh_option = FshNone | FshValue real | FshFunction "real \<Rightarrow> real"

text \<open>
  The parameter file: the entries of \<^verbatim>\<open>self.pf\<close> that the driver reads, each with the type
  the driver uses it at. \<^verbatim>\<open>ParameterFile\<close> itself is outside the modelled sources.
\<close>

record pf =
  verbose :: bool
  debug :: bool
  final_redshift :: real
  initial_redshift :: real
  track_extrema :: bool
  save_rate_coefficients :: bool
  compute_fluxes_at_start :: bool
  feedback_LW_Mmin :: Mmin_option
  feedback_LW_fsh :: fsh_option
  feedback_LW_felt_by :: "nat list"
  feedback_LW_Tcut :: real
  feedback_LW_Mmin_uponly :: bool
  feedback_LW_rtol :: real
  feedback_LW_atol :: real
  feedback_LW_mean_err :: bool
  feedback_maxiter :: int
  output_frequencies :: "real list option"
  output_dz :: "real option"
  output_freq_min :: real
  output_freq_max :: real
  output_freq_res :: real

text \<open>Populations, the radiation field and the Medium: external collaborators.\<close>

record halos =
  hmf_id :: nat
  halos_z :: "real list"
  VirialMass :: "real \<Rightarrow> real \<Rightarrow> real"

record pop =
  is_lya_src :: bool
  sed_tab :: bool
  src :: nat
  pop_halos :: halos
  pop_Mmin :: "real list"

record rad_field =
  pops :: "pop list"
  solve_rte :: "nat \<Rightarrow> bool"
  bands_by_pop :: "nat \<Rightarrow> (real \<times> real) list"
  tau_solver :: "nat option"
  LymanAlphaFlux :: "real \<Rightarrow> nat \<Rightarrow> real"
  LymanWernerFlux :: "real \<Rightarrow> nat \<Rightarrow> real"
  interp_Ja :: "nat \<Rightarrow> real \<Rightarrow> real"
  interp_Jlw :: "nat \<Rightarrow> real \<Rightarrow> real"
  update_Jlw :: "nat \<Rightarrow> nat \<Rightarrow> fluxes \<Rightarrow> real \<times> real"

text \<open>
  One tuple of the Medium's stepping generator, with the flux tables
  (\<^verbatim>\<open>field.all_fluxes[-1]\<close>, absent while that list is empty) as they stand when the tuple
  is yielded.
\<close>

record raw_step =
  step_t :: real
  step_z :: real
  data_igm :: data
  data_cgm :: data
  RC_igm :: data
  RC_cgm :: data
  latest_fluxes :: "fluxes option"

text \<open>
  The Medium. \<open>pending\<close> is the finite sequence its generator \<^verbatim>\<open>step()\<close> yields;
  \<open>cosm_nH\<close>, \<open>hydr_Ts\<close> and \<open>hydr_dTb\<close> are the physics functions of its IGM parcel.
  The driver's lists \<^verbatim>\<open>self.all_t\<close>, \<^verbatim>\<open>self.all_z\<close>, ... are the Medium's own list
  objects, so they live here only.
\<close>

record medium =
  tf :: real
  all_t :: "real list"
  all_z :: "real list"
  all_data_igm :: "data list"
  all_data_cgm :: "data list"
  all_RCs_igm :: "data list"
  all_RCs_cgm :: "data list"
  medium_field :: rad_field
  pending :: "raw_step list"
  cosm_nH :: "real \<Rightarrow> real"
  hydr_Ts :: "real \<Rightarrow> real \<Rightarrow> real \<Rightarrow> real \<Rightarrow> real \<Rightarrow> real"
  hydr_dTb :: "real \<Rightarrow> real \<Rightarrow> real \<Rightarrow> real"

text \<open>
  The simulation object. An attribute that the source creates lazily
  (\<^verbatim>\<open>if not hasattr(self, '_x')\<close>) or deletes is an \<open>option\<close>: \<open>None\<close> while the
  object does not have it. \<^verbatim>\<open>history\<close> is stored by the parent class as \<^verbatim>\<open>_history\<close>
  (the attribute \<^verbatim>\<open>reboot\<close> deletes).
\<close>

record sim =
  kwargs :: kwargs_t
  is_phenom :: bool
  is_tanh :: "bool option"
  is_gauss :: "bool option"
  is_param :: "bool option"
  pf_attr :: "pf option"
  medium_attr :: "medium option"
  history_attr :: "history option"
  history_igm :: "history option"
  history_cgm :: "history option"
  rates_igm :: "history option"
  rates_cgm :: "history option"
  all_dTb :: "real list"
  suite_attr :: "history list option"
  count_attr :: "int option"
  maxiter_attr :: "int option"
  carryover_attr :: "kwargs_t option"
  blobs_attr :: "real list option"

text \<open>
  The collaborators that are classes, functions or constants of other modules:
  the parameter file and the Medium (built from the keyword arguments), the Medium's
  \<^verbatim>\<open>_insert_inits\<close>, \<^verbatim>\<open>_sort_history\<close> (called with \<^verbatim>\<open>squeeze=True\<close>), the extrema tracker,
  the three phenomenological models (their parameter file; their call on a redshift or
  frequency grid), the order in which a history dict lists its keys, whether \<^verbatim>\<open>h5py\<close> can
  be imported, and two physical constants.
\<close>

datatype phenom_kind = Tanh21cm | Gaussian21cm | Parametric21cm

record env =
  ParameterFile :: "kwargs_t \<Rightarrow> pf"
  MultiPhaseMedium :: "kwargs_t \<Rightarrow> medium"
  insert_inits :: "medium \<Rightarrow> medium"
  sort_history :: "string \<Rightarrow> data list \<Rightarrow> history"
  is_stopping_point :: "real list \<Rightarrow> real list \<Rightarrow> bool"
  PhenomModel_pf :: "phenom_kind \<Rightarrow> kwargs_t \<Rightarrow> pf"
  PhenomModel_call :: "phenom_kind \<Rightarrow> kwargs_t \<Rightarrow> pf \<Rightarrow> real list \<Rightarrow> history"
  dict_keys :: "history \<Rightarrow> string list"
  h5py_installed :: bool
  E_LyA :: real
  nu_0_mhz :: real

section \<open>Lazily created attributes\<close>

text \<open>
  The properties \<^verbatim>\<open>count\<close>, \<^verbatim>\<open>pf\<close>, \<^verbatim>\<open>medium\<close> and \<^verbatim>\<open>maxiter\<close> create their attribute on
  first use, so reading one returns the value and the object.
\<close>

definition count :: "sim \<Rightarrow> int \<times> sim" where
  "count s =
     (case count_attr s of
        None \<Rightarrow> (0, s\<lparr>count_attr := Some 0\<rparr>)
      | Some n \<Rightarrow> (n, s))"

definition get_pf :: "env \<Rightarrow> sim \<Rightarrow> pf \<times> sim" where
  "get_pf e s =
     (case pf_attr s of
        None \<Rightarrow> (let p = ParameterFile e (kwargs s) in (p, s\<lparr>pf_attr := Some p\<rparr>))
      | Some p \<Rightarrow> (p, s))"

definition get_medium :: "env \<Rightarrow> sim \<Rightarrow> medium \<times> sim" where
  "get_medium e s =
     (case medium_attr s of
        None \<Rightarrow> (let m = MultiPhaseMedium e (kwargs s) in (m, s\<lparr>medium_attr := Some m\<rparr>))
      | Some m \<Rightarrow> (m, s))"

definition maxiter :: "env \<Rightarrow> sim \<Rightarrow> int \<times> sim" where
  "maxiter e s =
     (case maxiter_attr s of
        None \<Rightarrow> (let (p, s1) = get_pf e s
                 in (feedback_maxiter p, s1\<lparr>maxiter_attr := Some (feedback_maxiter p)\<rparr>))
      | Some n \<Rightarrow> (n, s))"

section \<open>The convergence check\<close>

text \<open>
  Lines 521 to 534 of \<^verbatim>\<open>_is_converged\<close>: both curves reversed to ascending redshift, the
  newest one interpolated onto the previous grid, and both restricted by the index array
  \<^verbatim>\<open>np.where(znow < 50)\<close>. The result is the pair (\<^verbatim>\<open>dTb_pre\<close>, \<^verbatim>\<open>dTb_now_interp\<close>) after
  the restriction.
\<close>

definition compared_curves :: "history \<Rightarrow> history \<Rightarrow> error + (real list \<times> real list)" where
  "compared_curves hist_now sim_pre =
     ebind (getitem hist_now ''z'') (\<lambda>z_now.
     ebind (getitem hist_now ''dTb'') (\<lambda>d_now.
     ebind (getitem sim_pre ''z'') (\<lambda>z_pre.
     ebind (getitem sim_pre ''dTb'') (\<lambda>d_pre.
       let znow = rev z_now; dTb_now = rev d_now;
           zpre = rev z_pre; dTb_pre = rev d_pre;
           ok = map (\<lambda>x. x < 50) znow
       in ebind (np_interp zpre znow dTb_now) (\<lambda>dTb_now_interp.
          ebind (np_take dTb_pre (np_where ok)) (\<lambda>pre_ok.
          ebind (np_take dTb_now_interp (np_where ok)) (\<lambda>now_ok.
            Inr (pre_ok, now_ok))))))))"

text \<open>\<^verbatim>\<open>self._suite[-2]\<close>: the attribute may be absent, the list shorter than two.\<close>

definition suite_prev :: "sim \<Rightarrow> error + history" where
  "suite_prev s =
     (case suite_attr s of
        None \<Rightarrow> Inl AttributeError
      | Some su \<Rightarrow> if length su < 2 then Inl IndexError else Inr (su ! (length su - 2)))"

text \<open>
  The decision of lines 549 to 575, from the two restricted curves and the tolerances.
\<close>

definition within_tolerance :: "pf \<Rightarrow> real list \<Rightarrow> real list \<Rightarrow> bool" where
  "within_tolerance p dTb_pre dTb_now_interp =
     (let err_rel = map (\<lambda>(a, b). rel_err a b) (zip dTb_now_interp dTb_pre);
          err_abs = map (\<lambda>(a, b). Finite \<bar>a - b\<bar>) (zip dTb_now_interp dTb_pre);
          rtol = feedback_LW_rtol p;
          atol = feedback_LW_atol p
      in if feedback_LW_mean_err p then
           (if rtol > 0 \<and> np_gt (np_mean err_rel) rtol then False
            else if rtol > 0 \<and> np_lt (np_mean err_rel) rtol \<and> atol = 0 then True
            else if atol > 0 \<and> np_lt (np_mean err_abs) atol then True
            else False)
         else np_allclose dTb_pre dTb_now_interp rtol atol)"

text \<open>
  \<^verbatim>\<open>_is_converged\<close>. The newest history is read before the suite, so its missing field
  is the exception raised when both fail. With \<^verbatim>\<open>debug\<close> set the source prints the mean
  and the maximum of both errors; \<^verbatim>\<open>max()\<close> of an empty array raises \<^verbatim>\<open>ValueError\<close>.
\<close>

definition is_converged :: "env \<Rightarrow> sim \<Rightarrow> (error + bool) \<times> sim" where
  "is_converged e s =
     (let (c, s1) = count s in
      if c = 1 then (Inr False, s1)
      else
        (case ebind (case history_attr s1 of None \<Rightarrow> Inl AttributeError | Some h \<Rightarrow> Inr h)
                (\<lambda>h. ebind (getitem h ''z'') (\<lambda>z_now.
                     ebind (getitem h ''dTb'') (\<lambda>d_now.
                     ebind (suite_prev s1) (\<lambda>sim_pre. compared_curves h sim_pre)))) of
           Inl err \<Rightarrow> (Inl err, s1)
         | Inr (dTb_pre, dTb_now_interp) \<Rightarrow>
             (let (p, s2) = get_pf e s1 in
              if debug p \<and> dTb_pre = [] then (Inl ValueError, s2)
              else
                (let (c2, s3) = count s2; (mx, s4) = maxiter e s3 in
                 if c2 \<ge> mx then (Inr True, s4)
                 else
                   (let (p2, s5) = get_pf e s4
                    in (Inr (within_tolerance p2 dTb_pre dTb_now_interp), s5))))))"

section \<open>The step generator\<close>

text \<open>
  The inner loop of \<^verbatim>\<open>step\<close> over the bands of population \<open>i\<close> (lines 460 to 475). The
  accumulator is the pair (\<^verbatim>\<open>Ja\<close>, \<^verbatim>\<open>Jlw\<close>).
\<close>

fun band_loop ::
  "env \<Rightarrow> pf \<Rightarrow> rad_field \<Rightarrow> fluxes option \<Rightarrow> real \<Rightarrow> nat \<Rightarrow> (nat \<times> real \<times> real) list
     \<Rightarrow> real \<times> real \<Rightarrow> error + (real \<times> real)" where
  "band_loop e p fld fl zz i [] acc = Inr acc"
| "band_loop e p fld fl zz i ((j, E0, E1) # bands) (Ja, Jlw) =
     (if \<not> (E0 \<le> E_LyA e \<and> E_LyA e < E1) then band_loop e p fld fl zz i bands (Ja, Jlw)
      else if compute_fluxes_at_start p then
        band_loop e p fld fl zz i bands (Ja + interp_Ja fld i zz, Jlw + interp_Jlw fld i zz)
      else
        (case fl of
           None \<Rightarrow> Inl IndexError
         | Some fluxes \<Rightarrow>
             band_loop e p fld fl zz i bands
               (Ja + fst (update_Jlw fld i j fluxes), Jlw + snd (update_Jlw fld i j fluxes))))"

text \<open>The loop over the populations (lines 449 to 475).\<close>

fun pop_loop ::
  "env \<Rightarrow> pf \<Rightarrow> rad_field \<Rightarrow> fluxes option \<Rightarrow> real \<Rightarrow> (nat \<times> pop) list
     \<Rightarrow> real \<times> real \<Rightarrow> error + (real \<times> real)" where
  "pop_loop e p fld fl zz [] acc = Inr acc"
| "pop_loop e p fld fl zz ((i, pp) # rest) (Ja, Jlw) =
     (if \<not> is_lya_src pp then pop_loop e p fld fl zz rest (Ja, Jlw)
      else if \<not> solve_rte fld i then
        pop_loop e p fld fl zz rest
          (Ja + LymanAlphaFlux fld zz i,
           if feedback_LW_Mmin p \<noteq> MminNone then Jlw + LymanWernerFlux fld zz i else Jlw)
      else
        ebind (band_loop e p fld fl zz i (enumerate 0 (bands_by_pop fld i)) (Ja, Jlw))
          (\<lambda>acc. pop_loop e p fld fl zz rest acc))"

definition lya_lw_fluxes ::
  "env \<Rightarrow> pf \<Rightarrow> rad_field \<Rightarrow> fluxes option \<Rightarrow> real \<Rightarrow> error + (real \<times> real)" where
  "lya_lw_fluxes e p fld fl zz = pop_loop e p fld fl zz (enumerate 0 (pops fld)) (0, 0)"

text \<open>
  The body of \<^verbatim>\<open>step\<close> for one tuple of the Medium's generator: the fluxes, the spin
  temperature, the averaged ionized fraction and the brightness temperature, attached to
  the IGM data. The parameter file is the one \<^verbatim>\<open>run\<close> has already read.
\<close>

definition augment_step :: "env \<Rightarrow> pf \<Rightarrow> medium \<Rightarrow> raw_step \<Rightarrow> error + raw_step" where
  "augment_step e p m r =
     ebind (lya_lw_fluxes e p (medium_field m) (latest_fluxes r) (step_z r)) (\<lambda>J.
     ebind (getitem (data_igm r) ''Tk'') (\<lambda>Tk.
     ebind (getitem (data_igm r) ''h_2'') (\<lambda>h2.
     ebind (getitem (data_igm r) ''e'') (\<lambda>el.
     ebind (getitem (data_cgm r) ''h_2'') (\<lambda>q.
       let Ja = fst J; Jlw = snd J;
           n_H = cosm_nH m (step_z r);
           Ts = hydr_Ts m (step_z r) Tk Ja h2 (el * n_H);
           xavg = q + (1 - q) * h2;
           dTb = hydr_dTb m (step_z r) xavg Ts
       in Inr (r\<lparr>data_igm :=
                 (data_igm r)(''Ts'' \<mapsto> Ts, ''dTb'' \<mapsto> dTb, ''Ja'' \<mapsto> Ja, ''Jlw'' \<mapsto> Jlw)\<rparr>))))))"

section \<open>The minimum-mass update\<close>

text \<open>Decimal digits of a population id, for \<^verbatim>\<open>'pop_Mmin{%i}' % popid\<close>.\<close>

fun string_of_nat :: "nat \<Rightarrow> string" where
  "string_of_nat n =
     (if n < 10 then [''0123456789'' ! n]
      else string_of_nat (n div 10) @ [''0123456789'' ! (n mod 10)])"

declare string_of_nat.simps [simp del]

definition Mmin_key :: "nat \<Rightarrow> string" where
  "Mmin_key popid = ''pop_Mmin{'' @ string_of_nat popid @ ''}''"

text \<open>\<^verbatim>\<open>xs[0]\<close>, \<^verbatim>\<open>xs[i]\<close> for a population id, and \<^verbatim>\<open>xs[-1]\<close>.\<close>

definition first_item :: "'a list \<Rightarrow> error + 'a" where
  "first_item xs = (case xs of [] \<Rightarrow> Inl IndexError | x # _ \<Rightarrow> Inr x)"

definition item :: "'a list \<Rightarrow> nat \<Rightarrow> error + 'a" where
  "item xs i = (if i < length xs then Inr (xs ! i) else Inl IndexError)"

definition last_item :: "'a list \<Rightarrow> error + 'a" where
  "last_item xs = (if xs = [] then Inl IndexError else Inr (last xs))"

text \<open>
  The column density \<^verbatim>\<open>NH2\<close> and the power-law self-shielding factor of lines 312 to 325.
  \<^verbatim>\<open>x**a\<close> on floats is \<open>powr\<close> for a positive base; a zero column density gives an
  infinite power in numpy, so the minimum with 1 is 1; a negative base gives NaN in numpy
  and is outside the model.
\<close>

definition NH2 :: "real \<Rightarrow> real \<Rightarrow> real" where
  "NH2 zz Mh = 10 ^ 17 * (0.00035 / 0.00035) * (Mh / 10 ^ 6) powr (1 / 3) * ((1 + zz) / 20) ^ 2"

definition shield :: "real \<Rightarrow> real \<Rightarrow> real" where
  "shield zz Mh =
     (if NH2 zz Mh / 10 ^ 14 = 0 then 1 else min 1 ((NH2 zz Mh / 10 ^ 14) powr (- 0.75)))"

text \<open>
  The closure \<^verbatim>\<open>f_sh\<close> of the first branch, called on a redshift array: the mass comes from
  the last record of the suite from the second iteration on, from the population's own
  table before.
\<close>

definition f_sh_power_law ::
  "pf \<Rightarrow> int \<Rightarrow> pop list \<Rightarrow> history list \<Rightarrow> real list \<Rightarrow> error + real list" where
  "f_sh_power_law p c ps su zs =
     ebind (first_item (feedback_LW_felt_by p)) (\<lambda>popid.
     ebind
       (if c > 1 then
          ebind (last_item su) (\<lambda>hist.
          ebind (getitem hist ''z'') (\<lambda>hz.
          ebind (getitem hist (Mmin_key popid)) (\<lambda>hm.
            np_interp zs (rev hz) (rev hm))))
        else
          ebind (item ps popid) (\<lambda>pp.
            np_interp zs (halos_z (pop_halos pp)) (pop_Mmin pp)))
       (\<lambda>Mh. Inr (map (\<lambda>(zz, M). shield zz M) (zip zs Mh))))"

text \<open>
  The choice of \<^verbatim>\<open>f_sh\<close> (lines 311 to 330), in the order of the source: the option is not
  \<^verbatim>\<open>None\<close>; else it is a function; else the constant 1.
\<close>

definition f_sh ::
  "pf \<Rightarrow> int \<Rightarrow> pop list \<Rightarrow> history list \<Rightarrow> real list \<Rightarrow> error + real list" where
  "f_sh p c ps su zs =
     (if feedback_LW_fsh p \<noteq> FshNone then f_sh_power_law p c ps su zs
      else
        (case feedback_LW_fsh p of
           FshFunction g \<Rightarrow> Inr (map g zs)
         | _ \<Rightarrow> Inr (map (\<lambda>zz. 1) zs)))"

text \<open>\<^verbatim>\<open>f_J\<close> (line 334); \<open>Jlw\<close> is the history's flux divided by \<^verbatim>\<open>1e-21\<close>.\<close>

definition f_J ::
  "pf \<Rightarrow> int \<Rightarrow> pop list \<Rightarrow> history list \<Rightarrow> real list \<Rightarrow> real list \<Rightarrow> real list
     \<Rightarrow> error + real list" where
  "f_J p c ps su ztmp Jlw zs =
     ebind (f_sh p c ps su zs) (\<lambda>sh.
     ebind (np_interp zs (rev ztmp) (rev Jlw)) (\<lambda>Ji.
       Inr (map (\<lambda>(a, b). a * b) (zip sh Ji))))"

text \<open>
  The mass estimate \<^verbatim>\<open>f_M\<close> (lines 336 to 342). The source compares the option with the
  literal \<^verbatim>\<open>'visbal2015'\<close> by identity (\<^verbatim>\<open>is\<close>), which holds for the interned literal a
  configuration passes; the model compares by value. \<^verbatim>\<open>pow\<close> is \<open>powr\<close> for a redshift
  above \<open>-1\<close> and a flux that is not negative; elsewhere numpy yields an infinity or NaN,
  which is outside the model.
\<close>

definition visbal2015 :: "real \<Rightarrow> real \<Rightarrow> real" where
  "visbal2015 zz J =
     2.5 * 10 ^ 5 * ((1 + zz) / 26) powr (- 1.5) * (1 + 6.96 * (4 * pi * J) powr 0.47)"

definition f_M ::
  "pf \<Rightarrow> int \<Rightarrow> pop list \<Rightarrow> history list \<Rightarrow> real list \<Rightarrow> real list \<Rightarrow> real list
     \<Rightarrow> error + real list" where
  "f_M p c ps su ztmp Jlw zs =
     (if feedback_LW_Mmin p = MminName ''visbal2015'' then
        ebind (f_J p c ps su ztmp Jlw zs) (\<lambda>J.
          Inr (map (\<lambda>(zz, j). visbal2015 zz j) (zip zs J)))
      else
        (case feedback_LW_Mmin p of
           MminFunction g \<Rightarrow> Inr (map g zs)
         | _ \<Rightarrow> Inl NotImplementedError))"

text \<open>
  The estimate before the ceiling, \<^verbatim>\<open>_Mmin_next\<close> (lines 336 to 353): an unrecognized
  option raises first; from the second iteration on the previous record's series is
  interpolated onto the current grid and averaged with the new estimate.
\<close>

definition Mmin_prev :: "pf \<Rightarrow> history list \<Rightarrow> real list \<Rightarrow> error + real list" where
  "Mmin_prev p su ztmp =
     ebind (last_item su) (\<lambda>hist.
     ebind (first_item (feedback_LW_felt_by p)) (\<lambda>popid.
     ebind (getitem hist ''z'') (\<lambda>hz.
     ebind (getitem hist (Mmin_key popid)) (\<lambda>hm.
       np_interp ztmp (rev hz) (rev hm)))))"

definition Mmin_next ::
  "pf \<Rightarrow> int \<Rightarrow> pop list \<Rightarrow> history list \<Rightarrow> real list \<Rightarrow> real list \<Rightarrow> error + real list" where
  "Mmin_next p c ps su ztmp Jlw =
     (if feedback_LW_Mmin p \<noteq> MminName ''visbal2015''
         \<and> (case feedback_LW_Mmin p of MminFunction g \<Rightarrow> False | _ \<Rightarrow> True)
      then Inl NotImplementedError
      else if c > 1 then
        ebind (Mmin_prev p su ztmp) (\<lambda>prev.
        ebind (f_M p c ps su ztmp Jlw ztmp) (\<lambda>new.
          Inr (np_mean_axis0 [new, prev])))
      else f_M p c ps su ztmp Jlw ztmp)"

text \<open>The ceiling (lines 360 to 364) and the final series (lines 367 to 370).\<close>

definition Mmin_ceil :: "pf \<Rightarrow> pop list \<Rightarrow> real list \<Rightarrow> error + real list" where
  "Mmin_ceil p ps ztmp =
     ebind (first_item (feedback_LW_felt_by p)) (\<lambda>popid.
     ebind (item ps popid) (\<lambda>pop_fb.
       Inr (map (VirialMass (pop_halos pop_fb) (feedback_LW_Tcut p)) ztmp)))"

definition Mmin_final :: "pf \<Rightarrow> real list \<Rightarrow> real list \<Rightarrow> real list" where
  "Mmin_final p next ceil =
     (let Mmin = np_minimum next ceil
      in if feedback_LW_Mmin_uponly p then np_maximum_accumulate Mmin else Mmin)"

text \<open>
  Lines 307 to 370 together: the series recorded for the iteration, from the finished
  history, the iteration count after its increment, the populations and the suite as it
  stands before the new record is appended.
\<close>

definition Mmin_update ::
  "pf \<Rightarrow> int \<Rightarrow> pop list \<Rightarrow> history list \<Rightarrow> history \<Rightarrow> error + (real list \<times> real list)" where
  "Mmin_update p c ps su h =
     ebind (getitem h ''z'') (\<lambda>ztmp.
     ebind (getitem h ''Jlw'') (\<lambda>J.
     ebind (Mmin_next p c ps su ztmp (map (\<lambda>x. x / (1 / 10 ^ 21)) J)) (\<lambda>next.
     ebind (Mmin_ceil p ps ztmp) (\<lambda>ceil.
       Inr (ztmp, Mmin_final p next ceil)))))"

text \<open>The interpolant \<^verbatim>\<open>f_Mmin\<close> (line 375) handed to the next iteration.\<close>

definition f_Mmin :: "real list \<Rightarrow> real list \<Rightarrow> real \<Rightarrow> real" where
  "f_Mmin ztmp Mmin zz = 10 powr (interp_at (rev ztmp) (map (log 10) (rev Mmin)) zz)"

section \<open>Construction, carryover and reboot\<close>

text \<open>Python's truth value of a keyword argument.\<close>

fun truthy :: "pyval \<Rightarrow> bool" where
  "truthy PNone = False"
| "truthy (PBool b) = b"
| "truthy (PInt n) = (n \<noteq> 0)"
| "truthy (PReal x) = (x \<noteq> 0)"
| "truthy (PStr t) = (t \<noteq> [])"
| "truthy (PFun g) = True"
| "truthy (PInstance n) = True"

text \<open>\<^verbatim>\<open>np.arange(start, stop, step)\<close> on floats.\<close>

definition np_arange :: "real \<Rightarrow> real \<Rightarrow> real \<Rightarrow> error + real list" where
  "np_arange start stop step =
     (if step = 0 then Inl ZeroDivisionError
      else Inr (map (\<lambda>i. start + real i * step) [0..<nat \<lceil>(stop - start) / step\<rceil>]))"

text \<open>
  The output grid of a phenomenological model (lines 177 to 190): the pair (\<^verbatim>\<open>z\<close>, \<^verbatim>\<open>nu\<close>).
\<close>

definition phenom_grid :: "env \<Rightarrow> pf \<Rightarrow> error + (real list \<times> real list)" where
  "phenom_grid e p =
     (case output_frequencies p of
        Some nu \<Rightarrow> Inr (map (\<lambda>x. nu_0_mhz e / x - 1) nu, nu)
      | None \<Rightarrow>
          (case output_dz p of
             Some dz \<Rightarrow>
               ebind (np_arange (final_redshift p + dz) (initial_redshift p) dz) (\<lambda>zs.
                 Inr (rev zs, map (\<lambda>x. nu_0_mhz e / (1 + x)) (rev zs)))
           | None \<Rightarrow>
               ebind (np_arange (output_freq_min p) (output_freq_max p) (output_freq_res p))
                 (\<lambda>nu. Inr (map (\<lambda>x. nu_0_mhz e / x - 1) nu, nu))))"

text \<open>
  \<^verbatim>\<open>_check_if_phenom\<close>: only the first of the three keys that is present is looked at.
  A phenomenological model sets the parameter file and the history at once.
\<close>

definition phenom_choice :: "kwargs_t \<Rightarrow> phenom_kind option" where
  "phenom_choice kw =
     (case kw ''tanh_model'' of
        Some v \<Rightarrow> (if truthy v then Some Tanh21cm else None)
      | None \<Rightarrow>
          (case kw ''gaussian_model'' of
             Some v \<Rightarrow> (if truthy v then Some Gaussian21cm else None)
           | None \<Rightarrow>
               (case kw ''parametric_model'' of
                  Some v \<Rightarrow> (if truthy v then Some Parametric21cm else None)
                | None \<Rightarrow> None)))"

definition check_if_phenom :: "env \<Rightarrow> sim \<Rightarrow> kwargs_t \<Rightarrow> error + (bool \<times> sim)" where
  "check_if_phenom e s kw =
     (if kw = Map.empty then Inr (False, s)
      else if kw ''tanh_model'' = None \<and> kw ''gaussian_model'' = None
                \<and> kw ''parametric_model'' = None then Inr (False, s)
      else
        (case phenom_choice kw of
           None \<Rightarrow>
             Inr (False, s\<lparr>is_tanh := Some False, is_gauss := Some False, is_param := Some False\<rparr>)
         | Some kind \<Rightarrow>
             (let s1 = s\<lparr>is_tanh := Some (kind = Tanh21cm), is_gauss := Some (kind = Gaussian21cm),
                         is_param := Some (kind = Parametric21cm),
                         pf_attr := Some (PhenomModel_pf e kind kw)\<rparr>;
                  p = PhenomModel_pf e kind kw
              in ebind (phenom_grid e p) (\<lambda>g.
                   Inr (True,
                        s1\<lparr>history_attr :=
                             Some (PhenomModel_call e kind kw p
                                     (if kind = Gaussian21cm then snd g else fst g))\<rparr>)))))"

text \<open>
  \<^verbatim>\<open>__init__\<close>, on a fresh object or again from \<^verbatim>\<open>reboot\<close>. The count is read (and so
  created) only when \<^verbatim>\<open>verbose\<close> is set; printing is not modelled.
\<close>

definition init :: "env \<Rightarrow> sim \<Rightarrow> kwargs_t \<Rightarrow> error + sim" where
  "init e s kw =
     ebind (check_if_phenom e s kw) (\<lambda>r.
       let kw1 = kw(''load_ics'' \<mapsto> PBool True);
           kw2 = (if kw1 ''problem_type'' = None then kw1(''problem_type'' \<mapsto> PInt 101) else kw1);
           s2 = (snd r)\<lparr>is_phenom := fst r, kwargs := kw2\<rparr>;
           s3 = snd (get_pf e s2);
           s4 = (if verbose (fst (get_pf e s2)) then snd (count s3) else s3)
       in Inr (if suite_attr s4 = None then s4\<lparr>suite_attr := Some []\<rparr> else s4))"

text \<open>An object before \<^verbatim>\<open>__init__\<close> has run: no attribute is set.\<close>

definition blank :: sim where
  "blank = \<lparr>kwargs = Map.empty, is_phenom = False, is_tanh = None, is_gauss = None,
     is_param = None, pf_attr = None, medium_attr = None, history_attr = None,
     history_igm = None, history_cgm = None, rates_igm = None, rates_cgm = None,
     all_dTb = [], suite_attr = None, count_attr = None, maxiter_attr = None,
     carryover_attr = None, blobs_attr = None\<rparr>"

definition Global21cm :: "env \<Rightarrow> kwargs_t \<Rightarrow> error + sim" where
  "Global21cm e kw = init e blank kw"

text \<open>The property \<^verbatim>\<open>carryover_kwargs\<close>: built once from the Medium, then kept.\<close>

definition psm_key :: "nat \<Rightarrow> string" where
  "psm_key i = ''pop_psm_instance{'' @ string_of_nat i @ ''}''"

fun pops_carryover :: "(nat \<times> pop) list \<Rightarrow> kwargs_t \<Rightarrow> kwargs_t" where
  "pops_carryover [] ck = ck"
| "pops_carryover ((i, pp) # rest) ck =
     (let ck1 = (if sed_tab pp then ck(psm_key i \<mapsto> PInstance (src pp)) else ck);
          ck2 = (if i = 0 then ck1(''hmf_instance'' \<mapsto> PInstance (hmf_id (pop_halos pp))) else ck1)
      in pops_carryover rest ck2)"

definition carryover_kwargs :: "env \<Rightarrow> sim \<Rightarrow> kwargs_t \<times> sim" where
  "carryover_kwargs e s =
     (case carryover_attr s of
        Some ck \<Rightarrow> (ck, s)
      | None \<Rightarrow>
          (let m = fst (get_medium e s);
               s1 = snd (get_medium e s);
               ck0 = (case tau_solver (medium_field m) of
                        None \<Rightarrow> Map.empty
                      | Some t \<Rightarrow> [''tau_instance'' \<mapsto> PInstance t]);
               ck = pops_carryover (enumerate 0 (pops (medium_field m))) ck0
           in (ck, s1\<lparr>carryover_attr := Some ck\<rparr>)))"

text \<open>
  \<^verbatim>\<open>reboot\<close>: \<^verbatim>\<open>delattr\<close> of an attribute the object does not have raises
  \<^verbatim>\<open>AttributeError\<close>.
\<close>

definition reboot :: "env \<Rightarrow> sim \<Rightarrow> error + sim" where
  "reboot e s =
     (let s1 = snd (count s);
          s2 = (if fst (count s) = 1
                then (let s' = snd (carryover_kwargs e s1)
                      in s'\<lparr>kwargs := kwargs s' ++ fst (carryover_kwargs e s1)\<rparr>)
                else s1)
      in if pf_attr s2 = None then Inl AttributeError
         else if medium_attr s2 = None then Inl AttributeError
         else if history_attr s2 = None then Inl AttributeError
         else init e (s2\<lparr>pf_attr := None, medium_attr := None, history_attr := None\<rparr>)
                (kwargs s2))"

section \<open>One pass of the stepping loop\<close>

text \<open>
  \<^verbatim>\<open>_init_dTb\<close>: the brightness temperature of the initial conditions, written into the
  Medium's IGM data and returned as a list.
\<close>

fun init_dTb_loop :: "medium \<Rightarrow> nat list \<Rightarrow> real list \<Rightarrow> error + (medium \<times> real list)" where
  "init_dTb_loop m [] acc = Inr (m, acc)"
| "init_dTb_loop m (i # rest) acc =
     ebind (item (all_data_igm m) i) (\<lambda>d.
     ebind (item (all_z m) i) (\<lambda>zi.
     ebind (getitem d ''Tk'') (\<lambda>Tk.
     ebind (getitem d ''h_2'') (\<lambda>h2.
     ebind (getitem d ''e'') (\<lambda>el.
     ebind (item (all_data_cgm m) i) (\<lambda>dc.
     ebind (getitem dc ''h_2'') (\<lambda>QHII.
       let n_H = cosm_nH m zi;
           Ts = hydr_Ts m zi Tk 0 h2 (el * n_H);
           xavg = QHII + (1 - QHII) * h2;
           Tb = hydr_dTb m zi xavg Ts
       in init_dTb_loop
            (m\<lparr>all_data_igm := (all_data_igm m)[i := d(''dTb'' \<mapsto> Tb, ''Ts'' \<mapsto> Ts)]\<rparr>)
            rest (acc @ [Tb]))))))))"

definition init_dTb :: "medium \<Rightarrow> error + (medium \<times> real list)" where
  "init_dTb m = init_dTb_loop m [0..<length (all_data_igm m)] []"

text \<open>
  The loop of lines 244 to 269 over the generator's tuples. It returns the Medium, whose
  lists have grown and whose \<open>pending\<close> tuples are those not yet yielded, and \<^verbatim>\<open>all_dTb\<close>.
\<close>

fun step_loop ::
  "env \<Rightarrow> pf \<Rightarrow> medium \<Rightarrow> real list \<Rightarrow> raw_step list \<Rightarrow> error + (medium \<times> real list)" where
  "step_loop e p m dTbs [] = Inr (m\<lparr>pending := []\<rparr>, dTbs)"
| "step_loop e p m dTbs (r # rest) =
     ebind (augment_step e p m r) (\<lambda>st.
       if step_z st < final_redshift p then Inr (m\<lparr>pending := rest\<rparr>, dTbs)
       else
         ebind (getitem (data_igm st) ''dTb'') (\<lambda>dTb.
           let m1 = m\<lparr>all_z := all_z m @ [step_z st], all_t := all_t m @ [step_t st],
                       all_data_igm := all_data_igm m @ [data_igm st],
                       all_data_cgm := all_data_cgm m @ [data_cgm st],
                       all_RCs_igm := all_RCs_igm m @ [RC_igm st],
                       all_RCs_cgm := all_RCs_cgm m @ [RC_cgm st]\<rparr>;
               dTbs1 = dTbs @ [dTb]
           in if track_extrema p \<and> is_stopping_point e (all_z m1) dTbs1
              then Inr (m1\<lparr>pending := rest\<rparr>, dTbs1)
              else step_loop e p m1 dTbs1 rest))"

text \<open>The merged history of lines 273 to 296.\<close>

definition build_history :: "env \<Rightarrow> pf \<Rightarrow> medium \<Rightarrow> error + history" where
  "build_history e p m =
     (let h0 = sort_history e ''igm_'' (all_data_igm m) ++ sort_history e ''cgm_'' (all_data_cgm m)
      in ebind (getitem h0 ''igm_dTb'') (\<lambda>v1.
         ebind (getitem (h0(''dTb'' \<mapsto> v1)) ''igm_Ts'') (\<lambda>v2.
         ebind (getitem (h0(''dTb'' \<mapsto> v1, ''Ts'' \<mapsto> v2)) ''igm_Ja'') (\<lambda>v3.
         ebind (getitem (h0(''dTb'' \<mapsto> v1, ''Ts'' \<mapsto> v2, ''Ja'' \<mapsto> v3)) ''igm_Jlw'') (\<lambda>v4.
           let h1 = h0(''dTb'' \<mapsto> v1, ''Ts'' \<mapsto> v2, ''Ja'' \<mapsto> v3, ''Jlw'' \<mapsto> v4);
               h2 = (if save_rate_coefficients p
                     then h1 ++ sort_history e ''igm_'' (all_RCs_igm m)
                             ++ sort_history e ''cgm_'' (all_RCs_cgm m)
                     else h1)
           in Inr (h2(''t'' \<mapsto> all_t m, ''z'' \<mapsto> all_z m)))))))"

text \<open>
  Lines 223 to 299 of \<^verbatim>\<open>run\<close>: the Medium is fetched (and built if the object has none),
  its initial conditions inserted, the tuples of the generator consumed, the history
  merged and the iteration count incremented. Wall-clock timing and the progress bar are
  not modelled.
\<close>

definition iterate :: "env \<Rightarrow> sim \<Rightarrow> error + sim" where
  "iterate e s =
     (let m1 = insert_inits e (fst (get_medium e s));
          s1 = (snd (get_medium e s))\<lparr>medium_attr := Some m1\<rparr>;
          p = fst (get_pf e s1);
          s2 = snd (get_pf e s1);
          m2 = m1\<lparr>all_data_igm := map (\<lambda>d. d(''Ja'' \<mapsto> 0, ''Jlw'' \<mapsto> 0)) (all_data_igm m1)\<rparr>
      in ebind (init_dTb m2) (\<lambda>r0.
         ebind (step_loop e p (fst r0) (snd r0) (pending (fst r0))) (\<lambda>r1.
         ebind (build_history e p (fst r1)) (\<lambda>h.
           let s3 = s2\<lparr>medium_attr := Some (fst r1), all_dTb := snd r1,
                       history_igm := Some (sort_history e ''igm_'' (all_data_igm (fst r1))),
                       history_cgm := Some (sort_history e ''cgm_'' (all_data_cgm (fst r1))),
                       rates_igm := (if save_rate_coefficients p
                                     then Some (sort_history e ''igm_'' (all_RCs_igm (fst r1)))
                                     else rates_igm s2),
                       rates_cgm := (if save_rate_coefficients p
                                     then Some (sort_history e ''cgm_'' (all_RCs_cgm (fst r1)))
                                     else rates_cgm s2),
                       history_attr := Some h\<rparr>
           in Inr ((snd (count s3))\<lparr>count_attr := Some (fst (count s3) + 1)\<rparr>)))))"

text \<open>
  Lines 306 to 381: the new record, with the series under the key of every population
  that feels the feedback, is appended to the suite, and the interpolant is stored in the
  keyword arguments. The attributes read here exist whenever \<^verbatim>\<open>run\<close> reaches these lines.
\<close>

definition feedback :: "env \<Rightarrow> pf \<Rightarrow> sim \<Rightarrow> error + sim" where
  "feedback e p s =
     (case history_attr s of None \<Rightarrow> Inl AttributeError | Some h \<Rightarrow>
       (case suite_attr s of None \<Rightarrow> Inl AttributeError | Some su \<Rightarrow>
         (let m = fst (get_medium e s);
              s1 = snd (get_medium e s);
              c = fst (count s1);
              s2 = snd (count s1)
          in ebind (Mmin_update p c (pops (medium_field m)) su h) (\<lambda>r.
               let record = foldl (\<lambda>d popid. d(Mmin_key popid \<mapsto> snd r)) h (feedback_LW_felt_by p);
                   kw = foldl (\<lambda>d popid. d(Mmin_key popid \<mapsto> PFun (f_Mmin (fst r) (snd r))))
                          (kwargs s2) (feedback_LW_felt_by p)
               in Inr (s2\<lparr>suite_attr := Some (su @ [record]), kwargs := kw\<rparr>)))))"

section \<open>The outer loop\<close>

text \<open>
  \<^verbatim>\<open>run\<close> calls itself until the convergence check holds. The fuel bounds the number of
  calls: \<open>None\<close> means the fuel ran out before the outermost call returned.
\<close>

fun run :: "nat \<Rightarrow> env \<Rightarrow> sim \<Rightarrow> (error + sim) option" where
  "run 0 e s = None"
| "run (Suc fuel) e s =
     (if is_phenom s then Some (Inr s)
      else if history_attr s \<noteq> None \<and> suite_attr s = None then Some (Inr s)
      else
        (case (if suite_attr s \<noteq> None \<and> suite_attr s \<noteq> Some [] then reboot e s else Inr s) of
           Inl err \<Rightarrow> Some (Inl err)
         | Inr s1 \<Rightarrow>
             (case iterate e s1 of
                Inl err \<Rightarrow> Some (Inl err)
              | Inr s2 \<Rightarrow>
                  (if feedback_LW_Mmin (fst (get_pf e s2)) = MminNone
                   then Some (Inr (snd (get_pf e s2)))
                   else
                     (case feedback e (fst (get_pf e s2)) (snd (get_pf e s2)) of
                        Inl err \<Rightarrow> Some (Inl err)
                      | Inr s3 \<Rightarrow>
                          (case fst (is_converged e s3) of
                             Inl err \<Rightarrow> Some (Inl err)
                           | Inr True \<Rightarrow> Some (Inr (snd (is_converged e s3)))
                           | Inr False \<Rightarrow> run fuel e (snd (is_converged e s3))))))))"

declare run.simps [simp del]

section \<open>Persistence\<close>

text \<open>
  The file system maps a file name to what the file holds. A pickle file holds the
  sequence of objects dumped into it; a file that was opened for writing and not written
  to is \<open>Empty\<close>. The text format is modelled by its header and its rows of numbers, not
  by the digits printed.
\<close>

datatype pickled = PickledHistory history | PickledBlobs "real list" | PickledPf pf

datatype content =
    Empty | Pickle "pickled list" | Hdf5 history | Npz history | NpzBlobs "real list"
  | Ascii "string list" "real list list"

type_synonym filesystem = "string \<rightharpoonup> content"

definition history_file :: "string \<Rightarrow> string \<Rightarrow> string" where
  "history_file prefix suffix = prefix @ ''.history.'' @ suffix"

definition blobs_file :: "string \<Rightarrow> string \<Rightarrow> string" where
  "blobs_file prefix suffix = prefix @ ''.blobs.'' @ suffix"

definition parameters_file :: "string \<Rightarrow> string" where
  "parameters_file prefix = prefix @ ''.parameters.pkl''"

text \<open>The rows of the text format (lines 658 to 667).\<close>

fun ascii_row :: "history \<Rightarrow> nat \<Rightarrow> string list \<Rightarrow> error + real list" where
  "ascii_row h i [] = Inr []"
| "ascii_row h i (k # ks) =
     ebind (getitem h k) (\<lambda>col.
     ebind (item col i) (\<lambda>v.
     ebind (ascii_row h i ks) (\<lambda>vs. Inr (v # vs))))"

fun ascii_rows ::
  "history \<Rightarrow> string list \<Rightarrow> nat list \<Rightarrow> real list list \<Rightarrow> error option \<times> real list list" where
  "ascii_rows h ks [] acc = (None, acc)"
| "ascii_rows h ks (i # rest) acc =
     (case ascii_row h i ks of
        Inl err \<Rightarrow> (Some err, acc)
      | Inr r \<Rightarrow> ascii_rows h ks rest (acc @ [r]))"

text \<open>
  Lines 610 to 669: the history file (and the blobs file) in the format the suffix names.
  The result is the exception raised, if any, and the file system as it then stands.
  \<open>su\<close> is the suite, which line 607 has read already. In the text format the row count
  is the length of the field whose key the header loop left in \<^verbatim>\<open>key\<close>; with no field
  that variable is unbound.
\<close>

definition write_history ::
  "env \<Rightarrow> sim \<Rightarrow> history list \<Rightarrow> string \<Rightarrow> string \<Rightarrow> filesystem \<Rightarrow> error option \<times> filesystem" where
  "write_history e s su prefix suffix fs =
     (let fn = history_file prefix suffix; bf = blobs_file prefix suffix in
      if suffix = ''pkl'' then
        (if su \<noteq> [] then
           (None,
            (fs(fn \<mapsto> Pickle (map PickledHistory su)))
              (bf \<mapsto> (case blobs_attr s of None \<Rightarrow> Empty | Some b \<Rightarrow> Pickle [PickledBlobs b])))
         else
           (case history_attr s of
              None \<Rightarrow> (Some AttributeError, fs(fn \<mapsto> Empty))
            | Some h \<Rightarrow>
                (None,
                 (fs(fn \<mapsto> Pickle [PickledHistory h]))
                   (bf \<mapsto> (case blobs_attr s of None \<Rightarrow> Empty
                             | Some b \<Rightarrow> Pickle [PickledBlobs b])))))
      else if suffix = ''hdf5'' \<or> suffix = ''h5'' then
        (if \<not> h5py_installed e then (Some ImportError, fs)
         else
           (case history_attr s of
              None \<Rightarrow> (Some AttributeError, fs(fn \<mapsto> Hdf5 Map.empty))
            | Some h \<Rightarrow> (None, fs(fn \<mapsto> Hdf5 h))))
      else if suffix = ''npz'' then
        (case history_attr s of
           None \<Rightarrow> (Some AttributeError, fs(fn \<mapsto> Empty))
         | Some h \<Rightarrow>
             (case blobs_attr s of
                None \<Rightarrow> (Some AttributeError, fs(fn \<mapsto> Npz h))
              | Some b \<Rightarrow>
                  (None, if b \<noteq> [] then (fs(fn \<mapsto> Npz h))(bf \<mapsto> NpzBlobs b)
                         else fs(fn \<mapsto> Npz h))))
      else
        (case history_attr s of
           None \<Rightarrow> (Some AttributeError, fs(fn \<mapsto> Ascii [] []))
         | Some h \<Rightarrow>
             (if dict_keys e h = [] then (Some UnboundLocalError, fs(fn \<mapsto> Ascii [] []))
              else
                (case getitem h (last (dict_keys e h)) of
                   Inl err \<Rightarrow> (Some err, fs(fn \<mapsto> Ascii (dict_keys e h) []))
                 | Inr col \<Rightarrow>
                     (fst (ascii_rows h (dict_keys e h) [0..<length col] []),
                      fs(fn \<mapsto> Ascii (dict_keys e h)
                                 (snd (ascii_rows h (dict_keys e h) [0..<length col] []))))))))"

text \<open>
  \<^verbatim>\<open>save\<close>. \<^verbatim>\<open>os.path.exists\<close> holds of the names the file system maps. Line 608 raises
  by calling the constant \<^verbatim>\<open>NotImplemented\<close>, which is a \<^verbatim>\<open>TypeError\<close>. The result pairs
  the exception or the object (whose parameter file may have been created) with the file
  system left behind.
\<close>

definition save ::
  "env \<Rightarrow> sim \<Rightarrow> string \<Rightarrow> string \<Rightarrow> bool \<Rightarrow> filesystem \<Rightarrow> (error + sim) \<times> filesystem" where
  "save e s prefix suffix clobber fs =
     (let fn = history_file prefix suffix; pfn = parameters_file prefix in
      if fs fn \<noteq> None \<and> \<not> clobber then (Inl IOError, fs)
      else
        (let fs1 = (if fs fn \<noteq> None then fs(fn := None) else fs) in
         case suite_attr s of
           None \<Rightarrow> (Inl AttributeError, fs1)
         | Some su \<Rightarrow>
             (if su \<noteq> [] \<and> suffix \<noteq> ''pkl'' then (Inl TypeError, fs1)
              else
                (case fst (write_history e s su prefix suffix fs1) of
                   Some err \<Rightarrow> (Inl err, snd (write_history e s su prefix suffix fs1))
                 | None \<Rightarrow>
                     (let fs2 = snd (write_history e s su prefix suffix fs1) in
                      if fs2 pfn \<noteq> None \<and> \<not> clobber then (Inr s, fs2)
                      else (Inr (snd (get_pf e s)),
                            fs2(pfn \<mapsto> Pickle [PickledPf (fst (get_pf e s))])))))))"

section \<open>Reading an object\<close>

text \<open>
  What the lazily created attributes evaluate to, without the effect of creating them.
\<close>

definition count_val :: "sim \<Rightarrow> int" where
  "count_val s = (case count_attr s of None \<Rightarrow> 0 | Some n \<Rightarrow> n)"

definition pf_val :: "env \<Rightarrow> sim \<Rightarrow> pf" where
  "pf_val e s = (case pf_attr s of None \<Rightarrow> ParameterFile e (kwargs s) | Some p \<Rightarrow> p)"

definition maxiter_val :: "env \<Rightarrow> sim \<Rightarrow> int" where
  "maxiter_val e s =
     (case maxiter_attr s of None \<Rightarrow> feedback_maxiter (pf_val e s) | Some n \<Rightarrow> n)"

section \<open>The specification's wording\<close>

text \<open>
  The comparison of the convergence check as the specification words it: the newest curve
  interpolated onto the previous grid, and both curves kept at exactly the previous-grid
  points whose redshift is below 50.
\<close>

definition spec_compared_curves :: "history \<Rightarrow> history \<Rightarrow> error + (real list \<times> real list)" where
  "spec_compared_curves hist_now sim_pre =
     ebind (getitem hist_now ''z'') (\<lambda>z_now.
     ebind (getitem hist_now ''dTb'') (\<lambda>d_now.
     ebind (getitem sim_pre ''z'') (\<lambda>z_pre.
     ebind (getitem sim_pre ''dTb'') (\<lambda>d_pre.
     ebind (np_interp (rev z_pre) (rev z_now) (rev d_now)) (\<lambda>interp.
       Inr (map snd (filter (\<lambda>(zz, v). zz < 50) (zip (rev z_pre) (rev d_pre))),
            map snd (filter (\<lambda>(zz, v). zz < 50) (zip (rev z_pre) interp))))))))"

text \<open>
  The self-shielding factor as the specification words it: a user-supplied function is
  used as it is, an absent option is the constant 1, and anything else is the power law.
\<close>

definition spec_f_sh ::
  "pf \<Rightarrow> int \<Rightarrow> pop list \<Rightarrow> history list \<Rightarrow> real list \<Rightarrow> error + real list" where
  "spec_f_sh p c ps su zs =
     (case feedback_LW_fsh p of
        FshFunction g \<Rightarrow> Inr (map g zs)
      | FshNone \<Rightarrow> Inr (map (\<lambda>zz. 1) zs)
      | FshValue v \<Rightarrow> f_sh_power_law p c ps su zs)"

text \<open>
  The Lyman-Werner flux of one step as the specification words it: the sum, over the
  populations that are Lyman-alpha sources, of the closed-form flux for a population
  without radiative transfer and of the flux of the bands that contain the Lyman-alpha
  line for one with it. \<open>band_Jlw\<close> is the flux of one band, \<open>bands_Jlw\<close> the sum over the
  bands of a population.
\<close>

definition band_Jlw :: "pf \<Rightarrow> rad_field \<Rightarrow> fluxes \<Rightarrow> real \<Rightarrow> nat \<Rightarrow> nat \<Rightarrow> real" where
  "band_Jlw p fld fluxes zz i j =
     (if compute_fluxes_at_start p then interp_Jlw fld i zz else snd (update_Jlw fld i j fluxes))"

definition bands_Jlw :: "env \<Rightarrow> pf \<Rightarrow> rad_field \<Rightarrow> fluxes \<Rightarrow> real \<Rightarrow> nat \<Rightarrow> real" where
  "bands_Jlw e p fld fluxes zz i =
     sum_list (map (\<lambda>(j, E0, E1). band_Jlw p fld fluxes zz i j)
        (filter (\<lambda>(j, E0, E1). E0 \<le> E_LyA e \<and> E_LyA e < E1)
           (enumerate 0 (bands_by_pop fld i))))"

definition spec_Jlw :: "env \<Rightarrow> pf \<Rightarrow> rad_field \<Rightarrow> fluxes \<Rightarrow> real \<Rightarrow> real" where
  "spec_Jlw e p fld fluxes zz =
     sum_list (map (\<lambda>(i, pp). if \<not> solve_rte fld i then LymanWernerFlux fld zz i
                                else bands_Jlw e p fld fluxes zz i)
        (filter (\<lambda>(i, pp). is_lya_src pp) (enumerate 0 (pops fld))))"

text \<open>
  The same sum with the closed-form term counted only when the feedback option is set,
  which is what the step loop computes.
\<close>

definition gated_Jlw :: "env \<Rightarrow> pf \<Rightarrow> rad_field \<Rightarrow> fluxes \<Rightarrow> real \<Rightarrow> real" where
  "gated_Jlw e p fld fluxes zz =
     sum_list (map (\<lambda>(i, pp). if \<not> solve_rte fld i
                                then (if feedback_LW_Mmin p \<noteq> MminNone
                                      then LymanWernerFlux fld zz i else 0)
                                else bands_Jlw e p fld fluxes zz i)
        (filter (\<lambda>(i, pp). is_lya_src pp) (enumerate 0 (pops fld))))"

section \<open>Sample objects\<close>

text \<open>
  A small configuration on which the theorems below are exercised: a parameter file with
  feedback after Visbal et al., a Medium with one population and one generator tuple
  left, and two iteration histories on different redshift grids.
\<close>

definition sample_pf :: pf where
  "sample_pf = \<lparr>verbose = False, debug = False, final_redshift = 6, initial_redshift = 40,
     track_extrema = False, save_rate_coefficients = False, compute_fluxes_at_start = True,
     feedback_LW_Mmin = MminName ''visbal2015'', feedback_LW_fsh = FshNone,
     feedback_LW_felt_by = [0], feedback_LW_Tcut = 10000, feedback_LW_Mmin_uponly = False,
     feedback_LW_rtol = 1 / 100, feedback_LW_atol = 0, feedback_LW_mean_err = False,
     feedback_maxiter = 2, output_frequencies = None, output_dz = None,
     output_freq_min = 40, output_freq_max = 200, output_freq_res = 1\<rparr>"

definition sample_halos :: halos where
  "sample_halos = \<lparr>hmf_id = 7, halos_z = [5, 50], VirialMass = (\<lambda>T zz. T * (100 - zz))\<rparr>"

definition sample_pop :: pop where
  "sample_pop = \<lparr>is_lya_src = True, sed_tab = True, src = 3, pop_halos = sample_halos,
     pop_Mmin = [10 ^ 6, 10 ^ 6]\<rparr>"

definition sample_field :: rad_field where
  "sample_field = \<lparr>pops = [sample_pop], solve_rte = (\<lambda>i. False),
     bands_by_pop = (\<lambda>i. []), tau_solver = Some 5,
     LymanAlphaFlux = (\<lambda>zz i. 2), LymanWernerFlux = (\<lambda>zz i. 5),
     interp_Ja = (\<lambda>i zz. 0), interp_Jlw = (\<lambda>i zz. 0),
     update_Jlw = (\<lambda>i j fl. (0, 0))\<rparr>"

definition sample_step :: raw_step where
  "sample_step = \<lparr>step_t = 1, step_z = 30,
     data_igm = [''Tk'' \<mapsto> 10, ''h_2'' \<mapsto> 0, ''e'' \<mapsto> 0],
     data_cgm = [''h_2'' \<mapsto> 0], RC_igm = Map.empty, RC_cgm = Map.empty,
     latest_fluxes = None\<rparr>"

definition sample_medium :: medium where
  "sample_medium = \<lparr>tf = 1, all_t = [0], all_z = [40],
     all_data_igm = [[''Tk'' \<mapsto> 10, ''h_2'' \<mapsto> 0, ''e'' \<mapsto> 0]],
     all_data_cgm = [[''h_2'' \<mapsto> 0]],
     all_RCs_igm = [Map.empty], all_RCs_cgm = [Map.empty],
     medium_field = sample_field, pending = [sample_step],
     cosm_nH = (\<lambda>zz. 1), hydr_Ts = (\<lambda>zz Tk Ja h2 ne. Tk + Ja),
     hydr_dTb = (\<lambda>zz x Ts. - Ts)\<rparr>"

text \<open>A history sorter that lists, under the prefixed key, the values of one field.\<close>

definition sample_sort_history :: "string \<Rightarrow> data list \<Rightarrow> history" where
  "sample_sort_history prefix ds k =
     (if take (length prefix) k = prefix
         \<and> list_all (\<lambda>d. d (drop (length prefix) k) \<noteq> None) ds
      then Some (map (\<lambda>d. the (d (drop (length prefix) k))) ds) else None)"

definition sample_env :: env where
  "sample_env = \<lparr>ParameterFile = (\<lambda>kw. sample_pf), MultiPhaseMedium = (\<lambda>kw. sample_medium),
     insert_inits = (\<lambda>m. m), sort_history = sample_sort_history,
     is_stopping_point = (\<lambda>zs ds. False),
     PhenomModel_pf = (\<lambda>k kw. sample_pf),
     PhenomModel_call = (\<lambda>k kw p g. Map.empty),
     dict_keys = (\<lambda>h. []), h5py_installed = True, E_LyA = 10.2, nu_0_mhz = 1420.4057\<rparr>"

definition hist_prev :: history where
  "hist_prev = [''z'' \<mapsto> [60, 30, 10], ''dTb'' \<mapsto> [100, - 50, - 10]]"

definition hist_now :: history where
  "hist_now = [''z'' \<mapsto> [40, 30, 10], ''dTb'' \<mapsto> [- 70, - 50, - 10]]"

text \<open>
  The object after its second feedback iteration (the suite holds both records), and
  after its first.
\<close>

definition sim_second :: sim where
  "sim_second = blank\<lparr>pf_attr := Some sample_pf, medium_attr := Some sample_medium,
     history_attr := Some hist_now, suite_attr := Some [hist_prev, hist_now],
     count_attr := Some 2\<rparr>"

definition sim_first :: sim where
  "sim_first = blank\<lparr>pf_attr := Some (sample_pf\<lparr>feedback_maxiter := 1\<rparr>),
     medium_attr := Some sample_medium,
     history_attr := Some hist_prev, suite_attr := Some [hist_prev],
     count_attr := Some 1\<rparr>"

text \<open>A field with a second population that needs radiative transfer, with two bands.\<close>

definition sample_field_rte :: rad_field where
  "sample_field_rte = sample_field\<lparr>pops := [sample_pop, sample_pop],
     solve_rte := (\<lambda>i. i = 1), bands_by_pop := (\<lambda>i. [(5, 10), (10, 13.6)]),
     interp_Jlw := (\<lambda>i zz. 3)\<rparr>"


definition uponly_pf :: pf where
  "uponly_pf = sample_pf\<lparr>feedback_LW_Mmin := MminFunction (\<lambda>zz. 650000),
     feedback_LW_Mmin_uponly := True\<rparr>"

definition hist_two :: history where
  "hist_two = [''z'' \<mapsto> [40, 30], ''Jlw'' \<mapsto> [0, 0], ''pop_Mmin{0}'' \<mapsto> [100, 200]]"

text \<open>The object after a run without feedback: a history, an empty suite.\<close>

definition sim_plain :: sim where
  "sim_plain = blank\<lparr>pf_attr := Some sample_pf, medium_attr := Some sample_medium,
     history_attr := Some hist_now, suite_attr := Some [], count_attr := Some 1\<rparr>"

text \<open>
  The object after its first feedback iteration, as \<^verbatim>\<open>run\<close> leaves it: the keyword
  arguments hold the defaults of \<^verbatim>\<open>__init__\<close>, the count is 1, the carryover is not built.
\<close>

definition sim_after_first :: sim where
  "sim_after_first = blank\<lparr>
     kwargs := [''load_ics'' \<mapsto> PBool True, ''problem_type'' \<mapsto> PInt 101],
     pf_attr := Some sample_pf, medium_attr := Some sample_medium,
     history_attr := Some hist_prev, suite_attr := Some [hist_prev],
     count_attr := Some 1\<rparr>"

definition sample_carryover :: kwargs_t where
  "sample_carryover = [''tau_instance'' \<mapsto> PInstance 5,
     ''pop_psm_instance{0}'' \<mapsto> PInstance 3, ''hmf_instance'' \<mapsto> PInstance 7]"

text \<open>
  The same environment with the feedback option absent, and the object built in it from
  no keyword argument.
\<close>

definition plain_pf :: pf where
  "plain_pf = sample_pf\<lparr>feedback_LW_Mmin := MminNone\<rparr>"

definition plain_env :: env where
  "plain_env = sample_env\<lparr>ParameterFile := (\<lambda>kw. plain_pf)\<rparr>"

definition plain_fresh :: sim where
  "plain_fresh = blank\<lparr>kwargs := [''load_ics'' \<mapsto> PBool True, ''problem_type'' \<mapsto> PInt 101],
     pf_attr := Some plain_pf, suite_attr := Some []\<rparr>"

text \<open>The object after one call of \<^verbatim>\<open>run\<close>, and after a second call.\<close>

definition plain_once :: sim where
  "plain_once = (case run (Suc 0) plain_env plain_fresh of Some (Inr s) \<Rightarrow> s | _ \<Rightarrow> blank)"

definition plain_twice :: sim where
  "plain_twice = (case run (Suc 0) plain_env plain_once of Some (Inr s) \<Rightarrow> s | _ \<Rightarrow> blank)"

text \<open>The sample Medium once its generator is exhausted.\<close>

definition sample_medium_done :: medium where
  "sample_medium_done = sample_medium\<lparr>all_t := [0, 1], all_z := [40, 30],
     all_data_igm :=
       [[''Tk'' \<mapsto> 10, ''h_2'' \<mapsto> 0, ''e'' \<mapsto> 0, ''Ja'' \<mapsto> 0, ''Jlw'' \<mapsto> 0,
         ''dTb'' \<mapsto> - 10, ''Ts'' \<mapsto> 10],
        [''Tk'' \<mapsto> 10, ''h_2'' \<mapsto> 0, ''e'' \<mapsto> 0, ''Ts'' \<mapsto> 12, ''dTb'' \<mapsto> - 12,
         ''Ja'' \<mapsto> 2, ''Jlw'' \<mapsto> 0]],
     all_data_cgm := [[''h_2'' \<mapsto> 0], [''h_2'' \<mapsto> 0]],
     all_RCs_igm := [Map.empty, Map.empty], all_RCs_cgm := [Map.empty, Map.empty],
     pending := []\<rparr>"

section \<open>Properties\<close>

subsection \<open>Lazily created attributes\<close>

lemma count_eq: "count s = (count_val s, s\<lparr>count_attr := Some (count_val s)\<rparr>)"
  by (simp add: count_def count_val_def split: option.splits)

lemma get_pf_eq: "get_pf e s = (pf_val e s, s\<lparr>pf_attr := Some (pf_val e s)\<rparr>)"
  by (simp add: get_pf_def pf_val_def Let_def split: option.splits)

lemma maxiter_fst: "fst (maxiter e s) = maxiter_val e s"
  by (simp add: maxiter_def maxiter_val_def get_pf_eq Let_def split: option.splits)

lemma count_val_upd [simp]:
  "count_val (s\<lparr>pf_attr := x\<rparr>) = count_val s"
  "count_val (s\<lparr>maxiter_attr := y\<rparr>) = count_val s"
  "count_val (s\<lparr>count_attr := Some n\<rparr>) = n"
  by (simp_all add: count_val_def)

lemma pf_val_upd [simp]:
  "pf_val e (s\<lparr>count_attr := x\<rparr>) = pf_val e s"
  "pf_val e (s\<lparr>maxiter_attr := y\<rparr>) = pf_val e s"
  "pf_val e (s\<lparr>pf_attr := Some p\<rparr>) = p"
  by (simp_all add: pf_val_def split: option.splits)

lemma maxiter_val_upd [simp]:
  "maxiter_val e (s\<lparr>count_attr := x\<rparr>) = maxiter_val e s"
  "maxiter_val e (s\<lparr>pf_attr := Some (pf_val e s)\<rparr>) = maxiter_val e s"
  by (simp_all add: maxiter_val_def split: option.splits)

lemma suite_prev_upd [simp]: "suite_prev (s\<lparr>count_attr := x\<rparr>) = suite_prev s"
  by (simp add: suite_prev_def)

subsection \<open>The convergence check at the iteration bound\<close>

lemma compared_curves_sample:
  "compared_curves hist_now hist_prev = Inr ([- 10, - 50, 100], [- 10, - 50, - 70])"
  by (simp add: compared_curves_def hist_now_def hist_prev_def getitem_def ebind_def
      np_interp_def interp_at_def np_take_def np_where_def Let_def upt_conv_Cons)

text \<open>
  The comparison raises nothing on two records that hold both fields, with as many
  values as redshifts, when the newest grid is not empty and not longer than the previous
  one.
\<close>

lemma np_where_bound: "i \<in> set (np_where bs) \<Longrightarrow> i < length bs"
  by (simp add: np_where_def)

lemma np_take_defined:
  "length bs \<le> length a \<Longrightarrow> np_take a (np_where bs) = Inr (map (\<lambda>i. a ! i) (np_where bs))"
  by (auto simp: np_take_def list_all_iff dest: np_where_bound)

lemma compared_curves_defined:
  assumes "hist_now ''z'' = Some zn" and "hist_now ''dTb'' = Some dn"
    and "sim_pre ''z'' = Some zp" and "sim_pre ''dTb'' = Some dp"
    and "zn \<noteq> []" and "length dn = length zn" and "length dp = length zp"
    and "length zn \<le> length zp"
  shows "\<exists>a b. compared_curves hist_now sim_pre = Inr (a, b)"
proof -
  let ?ok = "map (\<lambda>x. x < 50) (rev zn)"
  have i: "np_interp (rev zp) (rev zn) (rev dn) = Inr (map (interp_at (rev zn) (rev dn)) (rev zp))"
    using assms(5,6) by (simp add: np_interp_def)
  have t1: "np_take (rev dp) (np_where ?ok) = Inr (map (\<lambda>i. rev dp ! i) (np_where ?ok))"
    by (rule np_take_defined) (use assms(7,8) in simp)
  have t2: "np_take (map (interp_at (rev zn) (rev dn)) (rev zp)) (np_where ?ok)
      = Inr (map (\<lambda>i. map (interp_at (rev zn) (rev dn)) (rev zp) ! i) (np_where ?ok))"
    by (rule np_take_defined) (use assms(8) in simp)
  show ?thesis
    using assms(1-4) i t1 t2
    by (simp add: compared_curves_def getitem_def ebind_def Let_def)
qed

text \<open>
  Claim C1, as the code has it. Whenever the iteration count is at least the iteration
  bound and is not 1, and the two curves can be compared (a history and a suite of two
  records or more, on which \<open>compared_curves\<close> raises nothing, and which are not empty
  when \<^verbatim>\<open>debug\<close> asks for their maximum), \<^verbatim>\<open>_is_converged\<close> returns \<^verbatim>\<open>True\<close>, whatever
  the tolerances and the two curves are.
\<close>

theorem is_converged_at_maxiter:
  assumes "count_val s \<noteq> 1"
    and "maxiter_val e s \<le> count_val s"
    and "history_attr s = Some h"
    and "suite_prev s = Inr pre"
    and "compared_curves h pre = Inr (a, b)"
    and "\<not> (debug (pf_val e s) \<and> a = [])"
  shows "fst (is_converged e s) = Inr True"
proof -
  from assms(5) obtain z d where "getitem h ''z'' = Inr z" and "getitem h ''dTb'' = Inr d"
    by (auto simp: compared_curves_def ebind_def split: sum.splits)
  with assms show ?thesis
    by (simp add: is_converged_def count_eq get_pf_eq maxiter_fst split_beta Let_def ebind_def)
qed

theorem is_converged_at_maxiter_witness:
  "count_val sim_second \<noteq> 1 \<and> maxiter_val sample_env sim_second \<le> count_val sim_second
   \<and> compared_curves hist_now hist_prev = Inr ([- 10, - 50, 100], [- 10, - 50, - 70])
   \<and> fst (is_converged sample_env sim_second) = Inr True"
proof -
  have c: "count_val sim_second \<noteq> 1"
    by (simp add: count_val_def sim_second_def blank_def)
  have m: "maxiter_val sample_env sim_second \<le> count_val sim_second"
    by (simp add: maxiter_val_def pf_val_def count_val_def sim_second_def blank_def sample_pf_def)
  have h: "history_attr sim_second = Some hist_now"
    by (simp add: sim_second_def blank_def)
  have p: "suite_prev sim_second = Inr hist_prev"
    by (simp add: suite_prev_def sim_second_def blank_def)
  have d: "\<not> (debug (pf_val sample_env sim_second) \<and> [- 10, - 50, 100] = ([]::real list))"
    by simp
  from is_converged_at_maxiter [OF c m h p compared_curves_sample d] c m compared_curves_sample
  show ?thesis by simp
qed

text \<open>
  The claim as it is worded fails on the first iteration: with an iteration bound of 1
  the count has reached the bound, and the check returns \<^verbatim>\<open>False\<close>.
\<close>

theorem is_converged_first_iteration_counterexample:
  "maxiter_val sample_env sim_first \<le> count_val sim_first
   \<and> fst (is_converged sample_env sim_first) = Inr False"
  by (simp add: is_converged_def count_eq maxiter_val_def pf_val_def count_val_def
      sim_first_def blank_def sample_pf_def)

subsection \<open>The grid of the convergence check\<close>

lemma spec_compared_curves_sample:
  "spec_compared_curves hist_now hist_prev = Inr ([- 10, - 50], [- 10, - 50])"
  by (simp add: spec_compared_curves_def hist_now_def hist_prev_def getitem_def ebind_def
      np_interp_def interp_at_def)

lemma within_tolerance_sample: "within_tolerance sample_pf [- 10, - 50] [- 10, - 50]"
  by (simp add: within_tolerance_def sample_pf_def np_allclose_def Let_def)

lemma pf_val_maxiter: "pf_val e (snd (maxiter e s)) = pf_val e s"
  by (simp add: maxiter_def get_pf_eq Let_def split: option.splits)

lemma is_converged_below_bound:
  assumes "count_val s \<noteq> 1"
    and "\<not> maxiter_val e s \<le> count_val s"
    and "history_attr s = Some h"
    and "suite_prev s = Inr pre"
    and "compared_curves h pre = Inr (a, b)"
    and "\<not> (debug (pf_val e s) \<and> a = [])"
  shows "fst (is_converged e s) = Inr (within_tolerance (pf_val e s) a b)"
proof -
  from assms(5) obtain z d where "getitem h ''z'' = Inr z" and "getitem h ''dTb'' = Inr d"
    by (auto simp: compared_curves_def ebind_def split: sum.splits)
  with assms show ?thesis
    by (simp add: is_converged_def count_eq get_pf_eq maxiter_fst split_beta Let_def ebind_def
        pf_val_maxiter)
qed

lemma is_converged_sample:
  "fst (is_converged sample_env (sim_second\<lparr>maxiter_attr := Some 10\<rparr>)) = Inr False"
proof -
  let ?s = "sim_second\<lparr>maxiter_attr := Some 10\<rparr>"
  have c: "count_val ?s \<noteq> 1"
    by (simp add: count_val_def sim_second_def blank_def)
  have m: "\<not> maxiter_val sample_env ?s \<le> count_val ?s"
    by (simp add: maxiter_val_def count_val_def sim_second_def blank_def)
  have h: "history_attr ?s = Some hist_now"
    by (simp add: sim_second_def blank_def)
  have p: "suite_prev ?s = Inr hist_prev"
    by (simp add: suite_prev_def sim_second_def blank_def)
  have d: "\<not> (debug (pf_val sample_env ?s) \<and> [- 10, - 50, 100] = ([]::real list))"
    by simp
  have v: "pf_val sample_env ?s = sample_pf"
    by (simp add: pf_val_def sim_second_def blank_def)
  have "\<not> within_tolerance sample_pf [- 10, - 50, 100] [- 10, - 50, - 70]"
    by (simp add: within_tolerance_def sample_pf_def np_allclose_def Let_def)
  with is_converged_below_bound [OF c m h p compared_curves_sample d] v
  show ?thesis by simp
qed

lemma compared_curves_short:
  "compared_curves hist_now [''z'' \<mapsto> [60, 10], ''dTb'' \<mapsto> [100, - 10]] = Inl IndexError"
  by (simp add: compared_curves_def hist_now_def getitem_def ebind_def
      np_interp_def interp_at_def np_take_def np_where_def Let_def upt_conv_Cons)

lemma spec_compared_curves_short:
  "spec_compared_curves hist_now [''z'' \<mapsto> [60, 10], ''dTb'' \<mapsto> [100, - 10]]
     = Inr ([- 10], [- 10])"
  by (simp add: spec_compared_curves_def hist_now_def getitem_def ebind_def
      np_interp_def interp_at_def)

text \<open>
  Claim C4 at a failing input. The previous iteration has the redshifts 60, 30, 10, the
  newest 40, 30, 10, and the two curves agree at 30 and 10. The source takes the mask
  \<^verbatim>\<open>znow < 50\<close> from the newest grid and applies its indices to arrays on the previous
  grid, so the previous point at redshift 60 is compared (and the check returns
  \<^verbatim>\<open>False\<close>), where the claim keeps the previous-grid points below 50 only (on which the
  curves are within tolerance). With a previous grid of two points the same indices are
  out of range and the check raises.
\<close>

theorem compared_curves_masks_by_newest_grid:
  "compared_curves hist_now hist_prev = Inr ([- 10, - 50, 100], [- 10, - 50, - 70])
   \<and> spec_compared_curves hist_now hist_prev = Inr ([- 10, - 50], [- 10, - 50])
   \<and> fst (is_converged sample_env (sim_second\<lparr>maxiter_attr := Some 10\<rparr>)) = Inr False
   \<and> within_tolerance sample_pf [- 10, - 50] [- 10, - 50]
   \<and> compared_curves hist_now [''z'' \<mapsto> [60, 10], ''dTb'' \<mapsto> [100, - 10]] = Inl IndexError
   \<and> spec_compared_curves hist_now [''z'' \<mapsto> [60, 10], ''dTb'' \<mapsto> [100, - 10]]
       = Inr ([- 10], [- 10])"
  using compared_curves_sample spec_compared_curves_sample is_converged_sample
    within_tolerance_sample compared_curves_short spec_compared_curves_short
  by blast

subsection \<open>The choice of the self-shielding factor\<close>

lemma powr_small: "(1000::real) powr (- 0.75) < 1 / 2"
proof -
  have "(1000::real) powr (- 0.75) \<le> 16 powr (- 0.75)"
    by (rule powr_mono2') simp_all
  also have "(16::real) powr (- 0.75) = (2 powr 4) powr (- 0.75)"
    by simp
  also have "\<dots> = 2 powr (- 3)"
    by (simp only: powr_powr) simp
  also have "\<dots> = 1 / 8"
    by (simp add: powr_minus_divide)
  finally show ?thesis by simp
qed

lemma shield_sample: "shield 19 (10 ^ 6) < 1 / 2"
proof -
  have "NH2 19 (10 ^ 6) / 10 ^ 14 = 1000"
    by (simp add: NH2_def)
  then have "shield 19 (10 ^ 6) = min 1 (1000 powr (- 0.75))"
    by (simp only: shield_def) simp
  with powr_small show ?thesis by simp
qed

lemma f_sh_sample:
  "f_sh (sample_pf\<lparr>feedback_LW_fsh := FshFunction (\<lambda>zz. 1 / 2)\<rparr>) 1 [sample_pop] [] [19]
     = Inr [shield 19 (10 ^ 6)]"
  by (simp add: f_sh_def f_sh_power_law_def sample_pf_def sample_pop_def sample_halos_def
      first_item_def item_def ebind_def np_interp_def interp_at_def)

lemma spec_f_sh_sample:
  "spec_f_sh (sample_pf\<lparr>feedback_LW_fsh := FshFunction (\<lambda>zz. 1 / 2)\<rparr>) 1 [sample_pop] [] [19]
     = Inr [1 / 2]"
  by (simp add: spec_f_sh_def sample_pf_def)

lemma f_sh_not_None:
  "feedback_LW_fsh p \<noteq> FshNone \<Longrightarrow> f_sh p c ps su zs = f_sh_power_law p c ps su zs"
  by (simp add: f_sh_def)

text \<open>
  Claim C6 at a failing input. The option is the user function that is 1/2 at every
  redshift. The source tests \<^verbatim>\<open>is not None\<close> first, which a function passes, so the branch
  for a function is never reached: on the first iteration, at redshift 19 and with the
  population's mass table at \<open>10^6\<close>, the factor used is the power law's, which is below
  1/2, where the claim has the user's 1/2.
\<close>

theorem f_sh_ignores_user_function:
  "f_sh (sample_pf\<lparr>feedback_LW_fsh := FshFunction (\<lambda>zz. 1 / 2)\<rparr>) 1 [sample_pop] [] [19]
     = Inr [shield 19 (10 ^ 6)]
   \<and> shield 19 (10 ^ 6) < 1 / 2
   \<and> spec_f_sh (sample_pf\<lparr>feedback_LW_fsh := FshFunction (\<lambda>zz. 1 / 2)\<rparr>) 1 [sample_pop] [] [19]
     = Inr [1 / 2]"
  using f_sh_sample shield_sample spec_f_sh_sample by blast

subsection \<open>The Lyman-Werner flux of a step\<close>

lemma band_loop_Jlw:
  assumes "compute_fluxes_at_start p \<or> fl = Some fluxes"
  shows "\<exists>Ja'. band_loop e p fld fl zz i bands (Ja, Jlw) =
           Inr (Ja', Jlw + sum_list (map (\<lambda>(j, E0, E1). band_Jlw p fld fluxes zz i j)
                  (filter (\<lambda>(j, E0, E1). E0 \<le> E_LyA e \<and> E_LyA e < E1) bands)))"
  using assms
proof (induction bands arbitrary: Ja Jlw)
  case Nil
  then show ?case by simp
next
  case (Cons b bands)
  obtain j E0 E1 where b: "b = (j, E0, E1)" by (cases b) auto
  show ?case
  proof (cases "E0 \<le> E_LyA e \<and> E_LyA e < E1")
    case False
    with Cons b show ?thesis by auto
  next
    case inside: True
    show ?thesis
    proof (cases "compute_fluxes_at_start p")
      case True
      from Cons.IH [OF Cons.prems, of "Ja + interp_Ja fld i zz" "Jlw + interp_Jlw fld i zz"]
      show ?thesis using inside True b by (auto simp: band_Jlw_def add.assoc)
    next
      case False
      with Cons.prems have fl: "fl = Some fluxes" by simp
      from Cons.IH [OF Cons.prems, of "Ja + fst (update_Jlw fld i j fluxes)"
          "Jlw + snd (update_Jlw fld i j fluxes)"]
      show ?thesis using inside False b fl by (auto simp: band_Jlw_def add.assoc)
    qed
  qed
qed

lemma pop_loop_Jlw:
  assumes "compute_fluxes_at_start p \<or> fl = Some fluxes"
  shows "\<exists>Ja'. pop_loop e p fld fl zz ps (Ja, Jlw) =
           Inr (Ja', Jlw + sum_list (map (\<lambda>(i, pp). if \<not> solve_rte fld i
                                then (if feedback_LW_Mmin p \<noteq> MminNone
                                      then LymanWernerFlux fld zz i else 0)
                                else bands_Jlw e p fld fluxes zz i)
                  (filter (\<lambda>(i, pp). is_lya_src pp) ps)))"
  using assms
proof (induction ps arbitrary: Ja Jlw)
  case Nil
  then show ?case by simp
next
  case (Cons a ps)
  obtain i pp where a: "a = (i, pp)" by (cases a) auto
  show ?case
  proof (cases "is_lya_src pp")
    case False
    with Cons a show ?thesis by auto
  next
    case src: True
    show ?thesis
    proof (cases "solve_rte fld i")
      case False
      from Cons.IH [OF Cons.prems, of "Ja + LymanAlphaFlux fld zz i"
          "if feedback_LW_Mmin p \<noteq> MminNone then Jlw + LymanWernerFlux fld zz i else Jlw"]
      show ?thesis using src False a by (auto simp: add.assoc)
    next
      case True
      from band_loop_Jlw [OF Cons.prems, of e fld zz i "enumerate 0 (bands_by_pop fld i)" Ja Jlw]
      obtain Ja1 where b: "band_loop e p fld fl zz i (enumerate 0 (bands_by_pop fld i)) (Ja, Jlw)
          = Inr (Ja1, Jlw + bands_Jlw e p fld fluxes zz i)"
        by (auto simp: bands_Jlw_def)
      from Cons.IH [OF Cons.prems, of Ja1 "Jlw + bands_Jlw e p fld fluxes zz i"]
      show ?thesis using src True a b by (auto simp: ebind_def add.assoc)
    qed
  qed
qed

lemma lya_lw_fluxes_Jlw:
  assumes "compute_fluxes_at_start p \<or> fl = Some fluxes"
  shows "\<exists>Ja. lya_lw_fluxes e p fld fl zz = Inr (Ja, gated_Jlw e p fld fluxes zz)"
  using pop_loop_Jlw [OF assms, of e fld zz "enumerate 0 (pops fld)" 0 0]
  by (simp add: lya_lw_fluxes_def gated_Jlw_def)

lemma gated_Jlw_feedback:
  "feedback_LW_Mmin p \<noteq> MminNone \<Longrightarrow> gated_Jlw e p fld fluxes zz = spec_Jlw e p fld fluxes zz"
  by (simp add: gated_Jlw_def spec_Jlw_def cong: if_cong)

text \<open>
  Claim C7, as the code has it. On a step whose flux tables can be read (the fluxes are
  computed at the start, or the Medium has flux tables), the fluxes are computed without
  an exception and the \<^verbatim>\<open>Jlw\<close> attached to the IGM data is the sum over the Lyman-alpha
  source populations of: the flux of the bands that contain the Lyman-alpha line, for a
  population with radiative transfer; the closed-form flux, for a population without it,
  when the minimum-mass feedback is configured, and nothing otherwise. With the feedback
  configured this is the sum the claim states.
\<close>

theorem step_Jlw_is_gated_sum:
  assumes "compute_fluxes_at_start p \<or> latest_fluxes r = Some fluxes"
  shows "(\<exists>Ja. lya_lw_fluxes e p (medium_field m) (latest_fluxes r) (step_z r)
             = Inr (Ja, gated_Jlw e p (medium_field m) fluxes (step_z r)))
    \<and> (\<forall>st. augment_step e p m r = Inr st \<longrightarrow>
          data_igm st ''Jlw'' = Some (gated_Jlw e p (medium_field m) fluxes (step_z r)))
    \<and> (feedback_LW_Mmin p \<noteq> MminNone \<longrightarrow>
          gated_Jlw e p (medium_field m) fluxes (step_z r)
            = spec_Jlw e p (medium_field m) fluxes (step_z r))"
proof -
  from lya_lw_fluxes_Jlw [OF assms, of e "medium_field m" "step_z r"]
  obtain Ja where J: "lya_lw_fluxes e p (medium_field m) (latest_fluxes r) (step_z r)
      = Inr (Ja, gated_Jlw e p (medium_field m) fluxes (step_z r))" by blast
  have "data_igm st ''Jlw'' = Some (gated_Jlw e p (medium_field m) fluxes (step_z r))"
    if "augment_step e p m r = Inr st" for st
    using that J
    by (auto simp: augment_step_def ebind_def getitem_def Let_def split: option.splits)
  with J gated_Jlw_feedback show ?thesis by blast
qed

lemma gated_Jlw_sample: "gated_Jlw sample_env sample_pf sample_field_rte [] 30 = 8"
  by (simp add: gated_Jlw_def bands_Jlw_def band_Jlw_def sample_field_rte_def sample_field_def
      sample_pop_def sample_pf_def sample_env_def enumerate_eq_zip upt_conv_Cons)

lemma spec_Jlw_sample: "spec_Jlw sample_env sample_pf sample_field_rte [] 30 = 8"
  by (simp add: spec_Jlw_def bands_Jlw_def band_Jlw_def sample_field_rte_def sample_field_def
      sample_pop_def sample_pf_def sample_env_def enumerate_eq_zip upt_conv_Cons)

theorem step_Jlw_is_gated_sum_witness:
  "compute_fluxes_at_start sample_pf
   \<and> (\<exists>Ja. lya_lw_fluxes sample_env sample_pf sample_field_rte None 30 = Inr (Ja, 8))
   \<and> spec_Jlw sample_env sample_pf sample_field_rte [] 30 = 8"
proof -
  have c: "compute_fluxes_at_start sample_pf \<or> latest_fluxes sample_step = Some []"
    by (simp add: sample_pf_def)
  have f: "latest_fluxes sample_step = None" "step_z sample_step = 30"
    by (simp_all add: sample_step_def)
  have p: "compute_fluxes_at_start sample_pf"
    by (simp add: sample_pf_def)
  from step_Jlw_is_gated_sum [OF c, of sample_env "sample_medium\<lparr>medium_field := sample_field_rte\<rparr>"]
  have "\<exists>Ja. lya_lw_fluxes sample_env sample_pf sample_field_rte None 30 = Inr (Ja, 8)"
    by (simp add: f gated_Jlw_sample)
  with p spec_Jlw_sample show ?thesis by blast
qed

text \<open>
  The claim as it is worded fails when the feedback is not configured: the closed-form
  flux (5 here) of a population without radiative transfer is left out of \<^verbatim>\<open>Jlw\<close>.
\<close>

theorem step_Jlw_without_feedback_counterexample:
  "lya_lw_fluxes sample_env (sample_pf\<lparr>feedback_LW_Mmin := MminNone\<rparr>) sample_field None 30
     = Inr (2, 0)
   \<and> spec_Jlw sample_env (sample_pf\<lparr>feedback_LW_Mmin := MminNone\<rparr>) sample_field [] 30 = 5"
  by (simp add: lya_lw_fluxes_def spec_Jlw_def sample_field_def sample_pop_def sample_pf_def
      enumerate_eq_zip upt_conv_Cons)

subsection \<open>The ceiling on the minimum mass\<close>

lemma length_accumulate_from [simp]: "length (accumulate_from m xs) = length xs"
  by (induction xs arbitrary: m) simp_all

lemma length_np_maximum_accumulate [simp]: "length (np_maximum_accumulate xs) = length xs"
  by (cases xs) simp_all




lemma length_np_minimum [simp]: "length (np_minimum a b) = min (length a) (length b)"
  by (simp add: np_minimum_def)










subsection \<open>Damping of the minimum mass\<close>

lemma np_mean_axis0_pair:
  "np_mean_axis0 [a, b] = map (\<lambda>(x, y). (x + y) / 2) (zip a b)"
  by (simp add: np_mean_axis0_def split_beta)

lemma length_np_interp: "np_interp xs xp fp = Inr ys \<Longrightarrow> length ys = length xs"
  by (auto simp: np_interp_def split: if_splits)

lemma length_f_sh_power_law:
  "f_sh_power_law p c ps su zs = Inr sh \<Longrightarrow> length sh = length zs"
  by (auto simp: f_sh_power_law_def ebind_def split: sum.splits if_splits dest: length_np_interp)

lemma length_f_sh: "f_sh p c ps su zs = Inr sh \<Longrightarrow> length sh = length zs"
  by (auto simp: f_sh_def split: if_splits fsh_option.splits dest: length_f_sh_power_law)

lemma length_f_J_eq: "f_J p c ps su ztmp Jlw zs = Inr J \<Longrightarrow> length J = length zs"
proof -
  assume "f_J p c ps su ztmp Jlw zs = Inr J"
  then obtain sh Ji where "f_sh p c ps su zs = Inr sh"
    and "np_interp zs (rev ztmp) (rev Jlw) = Inr Ji"
    and "J = map (\<lambda>(a, b). a * b) (zip sh Ji)"
    by (auto simp: f_J_def ebind_def split: sum.splits)
  then show ?thesis
    using length_f_sh [of p c ps su zs sh] length_np_interp [of zs "rev ztmp" "rev Jlw" Ji]
    by simp
qed

lemma length_f_M: "f_M p c ps su ztmp Jlw zs = Inr new \<Longrightarrow> length new = length zs"
proof -
  assume a: "f_M p c ps su ztmp Jlw zs = Inr new"
  show ?thesis
  proof (cases "feedback_LW_Mmin p = MminName ''visbal2015''")
    case True
    with a obtain J where "f_J p c ps su ztmp Jlw zs = Inr J"
      and "new = map (\<lambda>(zz, j). visbal2015 zz j) (zip zs J)"
      by (auto simp: f_M_def ebind_def split: sum.splits)
    then show ?thesis using length_f_J_eq [of p c ps su ztmp Jlw zs J] by simp
  next
    case False
    with a show ?thesis by (auto simp: f_M_def split: Mmin_option.splits)
  qed
qed

lemma Mmin_next_first:
  "c \<le> 1 \<Longrightarrow> Mmin_next p c ps su ztmp Jlw = f_M p c ps su ztmp Jlw ztmp"
  by (auto simp: Mmin_next_def f_M_def split: Mmin_option.splits)

lemma Mmin_next_later:
  assumes "1 < c"
    and "Mmin_prev p su ztmp = Inr prev"
    and "f_M p c ps su ztmp Jlw ztmp = Inr new"
  shows "Mmin_next p c ps su ztmp Jlw = Inr (map (\<lambda>(x, y). (x + y) / 2) (zip new prev))"
  using assms
  by (auto simp: Mmin_next_def f_M_def ebind_def np_mean_axis0_pair split: Mmin_option.splits if_splits)

lemma Mmin_prev_interp:
  assumes "last_item su = Inr hist"
    and "first_item (feedback_LW_felt_by p) = Inr popid"
    and "getitem hist ''z'' = Inr hz"
    and "getitem hist (Mmin_key popid) = Inr hm"
    and "hz \<noteq> []" and "length hm = length hz"
  shows "Mmin_prev p su ztmp = Inr (map (interp_at (rev hz) (rev hm)) ztmp)"
  using assms by (simp add: Mmin_prev_def ebind_def np_interp_def)

text \<open>
  Claim C5. On the first iteration (count at most 1 when the update runs) the estimate
  before the ceiling is the raw estimate \<open>f_M(z)\<close>, unchanged. From the second iteration
  on, with \<open>hist\<close> the last record of the suite (the previous iteration's), whose redshifts
  and minimum masses are \<open>hz\<close> and \<open>hm\<close>, and \<open>new\<close> the raw estimate on the current grid,
  the estimate before the ceiling is, at every point of the current grid, the mean of the
  raw estimate and of the previous series interpolated onto the current grid.
\<close>

theorem Mmin_next_is_damped_mean:
  "(c \<le> 1 \<longrightarrow> Mmin_next p c ps su ztmp Jlw = f_M p c ps su ztmp Jlw ztmp)
   \<and> (1 < c \<and> last_item su = Inr hist \<and> first_item (feedback_LW_felt_by p) = Inr popid
        \<and> getitem hist ''z'' = Inr hz \<and> getitem hist (Mmin_key popid) = Inr hm
        \<and> hz \<noteq> [] \<and> length hm = length hz
        \<and> f_M p c ps su ztmp Jlw ztmp = Inr new
      \<longrightarrow> Mmin_next p c ps su ztmp Jlw
            = Inr (map (\<lambda>(x, y). (x + y) / 2)
                     (zip new (map (interp_at (rev hz) (rev hm)) ztmp)))
          \<and> length new = length ztmp)"
  using Mmin_next_first [of c p ps su ztmp Jlw]
    Mmin_next_later [of c p su ztmp "map (interp_at (rev hz) (rev hm)) ztmp" ps Jlw new]
    Mmin_prev_interp [of su hist p popid hz hm ztmp]
    length_f_M [of p c ps su ztmp Jlw ztmp new]
  by blast

lemma Mmin_key_0: "Mmin_key 0 = ''pop_Mmin{0}''"
  by (simp add: Mmin_key_def string_of_nat.simps)

theorem Mmin_next_is_damped_mean_witness:
  "Mmin_next uponly_pf 1 [sample_pop] [] [40, 30] [0, 0] = Inr [650000, 650000]
   \<and> f_M uponly_pf 2 [sample_pop] [hist_two] [40, 30] [0, 0] [40, 30] = Inr [650000, 650000]
   \<and> Mmin_next uponly_pf 2 [sample_pop] [hist_two] [40, 30] [0, 0] = Inr [325050, 325100]"
proof -
  have f1: "f_M uponly_pf 1 [sample_pop] [] [40, 30] [0, 0] [40, 30] = Inr [650000, 650000]"
    by (simp add: f_M_def uponly_pf_def)
  have f2: "f_M uponly_pf 2 [sample_pop] [hist_two] [40, 30] [0, 0] [40, 30] = Inr [650000, 650000]"
    by (simp add: f_M_def uponly_pf_def)
  have a: "last_item [hist_two] = Inr hist_two" by (simp add: last_item_def)
  have b: "first_item (feedback_LW_felt_by uponly_pf) = Inr 0"
    by (simp add: first_item_def uponly_pf_def sample_pf_def)
  have z: "getitem hist_two ''z'' = Inr [40, 30]" by (simp add: getitem_def hist_two_def)
  have m: "getitem hist_two (Mmin_key 0) = Inr [100, 200]"
    by (simp add: getitem_def hist_two_def Mmin_key_0)
  have i: "map (interp_at (rev [40, 30]) (rev [100, 200])) [40, 30] = [100, 200 :: real]"
    by (simp add: interp_at_def)
  from Mmin_next_is_damped_mean [of 1 uponly_pf "[sample_pop]" "[]" "[40, 30]" "[0, 0]"]
  have r1: "Mmin_next uponly_pf 1 [sample_pop] [] [40, 30] [0, 0] = Inr [650000, 650000]"
    using f1 by simp
  from Mmin_next_is_damped_mean [of 2 uponly_pf "[sample_pop]" "[hist_two]" "[40, 30]" "[0, 0]"
      hist_two 0 "[40, 30]" "[100, 200]" "[650000, 650000]"] a b z m f2
  have "Mmin_next uponly_pf 2 [sample_pop] [hist_two] [40, 30] [0, 0]
      = Inr (map (\<lambda>(x, y). (x + y) / 2)
               (zip [650000, 650000] (map (interp_at (rev [40, 30]) (rev [100, 200])) [40, 30])))"
    by simp
  then have r2: "Mmin_next uponly_pf 2 [sample_pop] [hist_two] [40, 30] [0, 0] = Inr [325050, 325100]"
    by (simp only: i) simp
  from r1 f2 r2 show ?thesis by blast
qed

subsection \<open>Overwrite protection of \<^verbatim>\<open>save\<close>\<close>

lemma file_names_differ:
  "history_file prefix suffix \<noteq> parameters_file prefix"
  "blobs_file prefix suffix \<noteq> parameters_file prefix"
  "blobs_file prefix suffix \<noteq> history_file prefix suffix"
  "parameters_file prefix \<noteq> history_file prefix suffix"
  "parameters_file prefix \<noteq> blobs_file prefix suffix"
  "history_file prefix suffix \<noteq> blobs_file prefix suffix"
  by (simp_all add: history_file_def parameters_file_def blobs_file_def)

lemma write_history_writes:
  "fst (write_history e s su prefix suffix fs) = None
     \<Longrightarrow> snd (write_history e s su prefix suffix fs) (history_file prefix suffix) \<noteq> None"
  by (auto simp: write_history_def Let_def file_names_differ split: option.splits sum.splits if_splits)

lemma write_history_parameters:
  "snd (write_history e s su prefix suffix fs) (parameters_file prefix) = fs (parameters_file prefix)"
  by (auto simp: write_history_def Let_def file_names_differ split: option.splits sum.splits if_splits)

lemma write_history_status:
  "fst (write_history e s su prefix suffix fs) = fst (write_history e s su prefix suffix fs')"
  by (auto simp: write_history_def Let_def split: option.splits sum.splits if_splits)

lemma write_history_content:
  "fst (write_history e s su prefix suffix fs) = None \<Longrightarrow>
   snd (write_history e s su prefix suffix fs) (history_file prefix suffix)
     = snd (write_history e s su prefix suffix fs') (history_file prefix suffix)"
  by (auto simp: write_history_def Let_def file_names_differ split: option.splits sum.splits if_splits)

lemma write_history_no_IOError:
  "fst (write_history e s su prefix suffix fs) \<noteq> Some IOError"
proof -
  have row: "ascii_row h i ks \<noteq> Inl IOError" for h i ks
    by (induction ks) (auto simp: ebind_def getitem_def item_def split: sum.splits option.splits if_splits)
  have rows: "fst (ascii_rows h ks is acc) \<noteq> Some IOError" for h ks "is" acc
  proof (induction "is" arbitrary: acc)
    case Nil
    then show ?case by simp
  next
    case (Cons i rest)
    then show ?case using row [of h i ks] by (auto split: sum.splits)
  qed
  show ?thesis
    using rows
    by (auto simp: write_history_def Let_def getitem_def split: option.splits sum.splits if_splits)
qed

lemma save_refuses:
  "fs (history_file prefix suffix) \<noteq> None \<Longrightarrow>
     save e s prefix suffix False fs = (Inl IOError, fs)"
  by (simp add: save_def Let_def)

lemma save_clobber_removes:
  "save e s prefix suffix True fs
     = save e s prefix suffix True (fs(history_file prefix suffix := None))"
proof (cases "fs (history_file prefix suffix) = None")
  case True
  then have "fs(history_file prefix suffix := None) = fs" by (simp add: fun_upd_idem)
  then show ?thesis by simp
next
  case False
  then show ?thesis by (simp add: save_def Let_def)
qed

lemma save_writes:
  assumes "fst (save e s prefix suffix clobber fs) = Inr s'"
  shows "snd (save e s prefix suffix clobber fs) (history_file prefix suffix) \<noteq> None"
proof -
  let ?fn = "history_file prefix suffix"
  let ?fs1 = "if fs ?fn \<noteq> None then fs(?fn := None) else fs"
  from assms obtain su where su: "suite_attr s = Some su"
    and ok: "\<not> (fs ?fn \<noteq> None \<and> \<not> clobber)" "\<not> (su \<noteq> [] \<and> suffix \<noteq> ''pkl'')"
    and w: "fst (write_history e s su prefix suffix ?fs1) = None"
    by (auto simp: save_def Let_def split: option.splits if_splits)
  from write_history_writes [OF w]
  have "snd (write_history e s su prefix suffix ?fs1) ?fn \<noteq> None" .
  with su ok w show ?thesis
    by (auto simp: save_def Let_def file_names_differ)
qed

text \<open>
  Claim C9, as amended. If the history file exists and \<^verbatim>\<open>clobber\<close> is false, \<^verbatim>\<open>save\<close>
  raises \<^verbatim>\<open>IOError\<close> and leaves the file system as it was. With \<^verbatim>\<open>clobber\<close> true the
  existing file is removed first (the call does what it does when the file is not there),
  and whenever the call returns normally a history file stands in its place.
\<close>

theorem save_overwrite_protection:
  "(fs (history_file prefix suffix) \<noteq> None \<longrightarrow>
      save e s prefix suffix False fs = (Inl IOError, fs))
   \<and> save e s prefix suffix True fs
       = save e s prefix suffix True (fs(history_file prefix suffix := None))
   \<and> (fst (save e s prefix suffix True fs) = Inr s' \<longrightarrow>
        snd (save e s prefix suffix True fs) (history_file prefix suffix) \<noteq> None)"
  using save_refuses [of fs prefix suffix e s] save_clobber_removes [of e s prefix suffix fs]
    save_writes [of e s prefix suffix True fs s']
  by blast

lemma save_sample_clobber:
  "save sample_env sim_plain ''run'' ''pkl'' True [history_file ''run'' ''pkl'' \<mapsto> Empty]
     = (Inr sim_plain,
        [history_file ''run'' ''pkl'' \<mapsto> Pickle [PickledHistory hist_now],
         blobs_file ''run'' ''pkl'' \<mapsto> Empty,
         parameters_file ''run'' \<mapsto> Pickle [PickledPf sample_pf]])"
  by (simp add: save_def write_history_def Let_def sim_plain_def blank_def get_pf_def
      history_file_def blobs_file_def parameters_file_def)

theorem save_overwrite_protection_witness:
  "save sample_env sim_plain ''run'' ''pkl'' False [history_file ''run'' ''pkl'' \<mapsto> Empty]
     = (Inl IOError, [history_file ''run'' ''pkl'' \<mapsto> Empty])
   \<and> fst (save sample_env sim_plain ''run'' ''pkl'' True [history_file ''run'' ''pkl'' \<mapsto> Empty])
     = Inr sim_plain
   \<and> snd (save sample_env sim_plain ''run'' ''pkl'' True [history_file ''run'' ''pkl'' \<mapsto> Empty])
       (history_file ''run'' ''pkl'') \<noteq> None"
proof -
  have x: "[history_file ''run'' ''pkl'' \<mapsto> Empty] (history_file ''run'' ''pkl'') \<noteq> None"
    by simp
  have y: "fst (save sample_env sim_plain ''run'' ''pkl'' True
      [history_file ''run'' ''pkl'' \<mapsto> Empty]) = Inr sim_plain"
    by (simp add: save_sample_clobber)
  from save_overwrite_protection [of "[history_file ''run'' ''pkl'' \<mapsto> Empty]" "''run''" "''pkl''"
      sample_env sim_plain sim_plain] x y
  show ?thesis by blast
qed

text \<open>
  The claim as it is worded fails when the suite is not empty and the format is not
  \<^verbatim>\<open>pkl\<close>: the existing file is removed (line 602) before the unsupported combination is
  refused (line 608), so it is removed and not replaced.
\<close>

theorem save_clobber_unsupported_counterexample:
  "fst (save sample_env sim_second ''run'' ''hdf5'' True
          [history_file ''run'' ''hdf5'' \<mapsto> Hdf5 hist_prev]) = Inl TypeError
   \<and> snd (save sample_env sim_second ''run'' ''hdf5'' True
          [history_file ''run'' ''hdf5'' \<mapsto> Hdf5 hist_prev]) (history_file ''run'' ''hdf5'') = None"
  by (simp add: save_def Let_def sim_second_def blank_def)

subsection \<open>A parameters file that is already there\<close>

lemma save_parameters_kept:
  assumes "fs (parameters_file prefix) = Some c"
  shows "snd (save e s prefix suffix False fs) (parameters_file prefix) = Some c"
  using assms
  by (auto simp: save_def Let_def write_history_parameters file_names_differ
      split: option.splits if_splits)

lemma save_no_IOError:
  assumes "fs (history_file prefix suffix) = None"
  shows "fst (save e s prefix suffix False fs) \<noteq> Inl IOError"
  using assms write_history_no_IOError
  by (auto simp: save_def Let_def split: option.splits if_splits)

lemma save_same_without_parameters:
  assumes "fs (parameters_file prefix) = Some c"
    and "fs (history_file prefix suffix) = None"
    and "fst (save e s prefix suffix False (fs(parameters_file prefix := None))) = Inr s0"
  shows "fst (save e s prefix suffix False fs) = Inr s
         \<and> snd (save e s prefix suffix False fs) (history_file prefix suffix)
           = snd (save e s prefix suffix False (fs(parameters_file prefix := None)))
               (history_file prefix suffix)
         \<and> snd (save e s prefix suffix False fs) (history_file prefix suffix) \<noteq> None"
proof -
  let ?fn = "history_file prefix suffix"
  let ?pfn = "parameters_file prefix"
  let ?fs' = "fs(?pfn := None)"
  have fn': "?fs' ?fn = None" using assms(2) by (simp add: file_names_differ)
  from assms(3) fn' obtain su where su: "suite_attr s = Some su"
    and ok: "\<not> (su \<noteq> [] \<and> suffix \<noteq> ''pkl'')"
    and w': "fst (write_history e s su prefix suffix ?fs') = None"
    by (auto simp: save_def Let_def split: option.splits if_splits)
  from w' write_history_status [of e s su prefix suffix fs ?fs']
  have w: "fst (write_history e s su prefix suffix fs) = None" by simp
  have p: "snd (write_history e s su prefix suffix fs) ?pfn = Some c"
    using assms(1) by (simp add: write_history_parameters)
  have first: "save e s prefix suffix False fs
      = (Inr s, snd (write_history e s su prefix suffix fs))"
    using su ok w p assms(2) by (simp add: save_def Let_def)
  have c': "snd (save e s prefix suffix False ?fs') ?fn
      = snd (write_history e s su prefix suffix ?fs') ?fn"
    using su ok w' fn' by (auto simp: save_def Let_def file_names_differ)
  have same: "snd (write_history e s su prefix suffix fs) ?fn
      = snd (write_history e s su prefix suffix ?fs') ?fn"
    by (rule write_history_content [OF w])
  from first c' same write_history_writes [OF w] su show ?thesis by simp
qed

text \<open>
  Claim C10, as amended. With the parameters file there, no history file and \<^verbatim>\<open>clobber\<close>
  false: the parameters file is left as it was in every case; the overwrite error is not
  raised; and whenever the same call would return normally on a file system without
  the parameters file, it returns normally here too, having written the same history file
  and not the parameters file (the object is even returned without its parameter file
  being read).
\<close>

theorem save_skips_existing_parameters:
  assumes "fs (parameters_file prefix) = Some c"
    and "fs (history_file prefix suffix) = None"
  shows "snd (save e s prefix suffix False fs) (parameters_file prefix) = Some c
    \<and> fst (save e s prefix suffix False fs) \<noteq> Inl IOError
    \<and> (fst (save e s prefix suffix False (fs(parameters_file prefix := None))) = Inr s0 \<longrightarrow>
         fst (save e s prefix suffix False fs) = Inr s
         \<and> snd (save e s prefix suffix False fs) (history_file prefix suffix)
             = snd (save e s prefix suffix False (fs(parameters_file prefix := None)))
                 (history_file prefix suffix)
         \<and> snd (save e s prefix suffix False fs) (history_file prefix suffix) \<noteq> None)"
  using assms save_parameters_kept [of fs prefix c e s suffix]
    save_no_IOError [of fs prefix suffix e s]
    save_same_without_parameters [of fs prefix c suffix e s s0]
  by blast

lemma save_sample_parameters:
  "save sample_env sim_plain ''run'' ''pkl'' False [parameters_file ''run'' \<mapsto> Empty]
     = (Inr sim_plain,
        [parameters_file ''run'' \<mapsto> Empty,
         history_file ''run'' ''pkl'' \<mapsto> Pickle [PickledHistory hist_now],
         blobs_file ''run'' ''pkl'' \<mapsto> Empty])"
  by (simp add: save_def write_history_def Let_def sim_plain_def blank_def
      history_file_def blobs_file_def parameters_file_def)

lemma save_sample_fresh:
  "fst (save sample_env sim_plain ''run'' ''pkl'' False
          ([parameters_file ''run'' \<mapsto> Empty](parameters_file ''run'' := None)))
     = Inr sim_plain"
  by (simp add: save_def write_history_def Let_def sim_plain_def blank_def get_pf_def
      history_file_def blobs_file_def parameters_file_def)

theorem save_skips_existing_parameters_witness:
  "snd (save sample_env sim_plain ''run'' ''pkl'' False [parameters_file ''run'' \<mapsto> Empty])
       (parameters_file ''run'') = Some Empty
   \<and> fst (save sample_env sim_plain ''run'' ''pkl'' False [parameters_file ''run'' \<mapsto> Empty])
       = Inr sim_plain
   \<and> snd (save sample_env sim_plain ''run'' ''pkl'' False [parameters_file ''run'' \<mapsto> Empty])
       (history_file ''run'' ''pkl'') = Some (Pickle [PickledHistory hist_now])"
proof -
  have a: "[parameters_file ''run'' \<mapsto> Empty] (parameters_file ''run'') = Some Empty"
    by simp
  have b: "[parameters_file ''run'' \<mapsto> Empty] (history_file ''run'' ''pkl'') = None"
    by (simp add: file_names_differ)
  from save_skips_existing_parameters [OF a b, of sample_env sim_plain sim_plain] save_sample_fresh
  have "snd (save sample_env sim_plain ''run'' ''pkl'' False [parameters_file ''run'' \<mapsto> Empty])
       (parameters_file ''run'') = Some Empty
    \<and> fst (save sample_env sim_plain ''run'' ''pkl'' False [parameters_file ''run'' \<mapsto> Empty])
       = Inr sim_plain"
    by blast
  moreover have "snd (save sample_env sim_plain ''run'' ''pkl'' False
      [parameters_file ''run'' \<mapsto> Empty]) (history_file ''run'' ''pkl'')
      = Some (Pickle [PickledHistory hist_now])"
    by (simp add: save_sample_parameters file_names_differ)
  ultimately show ?thesis by blast
qed

text \<open>
  The claim as it is worded (\<^verbatim>\<open>save\<close> does not raise) fails when the call is refused for
  another reason: a suite that is not empty with a format other than \<^verbatim>\<open>pkl\<close>.
\<close>

theorem save_with_parameters_raises_counterexample:
  "fst (save sample_env sim_second ''run'' ''hdf5'' False [parameters_file ''run'' \<mapsto> Empty])
     = Inl TypeError
   \<and> snd (save sample_env sim_second ''run'' ''hdf5'' False [parameters_file ''run'' \<mapsto> Empty])
       (history_file ''run'' ''hdf5'') = None"
  by (simp add: save_def Let_def sim_second_def blank_def file_names_differ)

subsection \<open>What a reboot changes\<close>

lemma check_if_phenom_plain:
  assumes "kw ''tanh_model'' = None" "kw ''gaussian_model'' = None" "kw ''parametric_model'' = None"
  shows "check_if_phenom e s kw = Inr (False, s)"
  using assms by (simp add: check_if_phenom_def)

lemma init_plain:
  assumes "kw ''tanh_model'' = None" "kw ''gaussian_model'' = None" "kw ''parametric_model'' = None"
    and "kw ''load_ics'' = Some (PBool True)" and "kw ''problem_type'' \<noteq> None"
    and "pf_attr s = None" and "count_attr s \<noteq> None" and "suite_attr s \<noteq> None"
  shows "init e s kw = Inr (s\<lparr>is_phenom := False, kwargs := kw,
                               pf_attr := Some (ParameterFile e kw)\<rparr>)"
proof -
  have k: "kw(''load_ics'' \<mapsto> PBool True) = kw"
    using assms(4) by (simp add: fun_upd_idem)
  obtain c where c: "count_attr s = Some c" using assms(7) by blast
  obtain pt su where o: "kw ''problem_type'' = Some pt" "suite_attr s = Some su"
    using assms(5,8) by blast
  show ?thesis
    using assms(6) o c
    by (simp add: init_def check_if_phenom_plain [OF assms(1-3)] ebind_def k Let_def
        get_pf_def count_def)
qed

lemma carryover_kwargs_memo:
  "carryover_attr s = Some ck \<Longrightarrow> carryover_kwargs e s = (ck, s)"
  by (simp add: carryover_kwargs_def)

lemma carryover_kwargs_built:
  "medium_attr s = Some m \<Longrightarrow> carryover_attr s = None \<Longrightarrow>
     carryover_kwargs e s =
       (fst (carryover_kwargs e s), s\<lparr>carryover_attr := Some (fst (carryover_kwargs e s))\<rparr>)"
  by (simp add: carryover_kwargs_def get_medium_def Let_def)

lemma carryover_kwargs_snd:
  assumes "medium_attr s \<noteq> None"
  shows "snd (carryover_kwargs e s) = s\<lparr>carryover_attr := Some (fst (carryover_kwargs e s))\<rparr>"
proof (cases "carryover_attr s")
  case None
  with assms show ?thesis
    by (auto simp: carryover_kwargs_def get_medium_def Let_def)
next
  case (Some ck)
  then show ?thesis by (simp add: carryover_kwargs_def)
qed

lemma reboot_result:
  assumes "pf_attr s \<noteq> None" and "medium_attr s \<noteq> None" and "history_attr s \<noteq> None"
    and "suite_attr s \<noteq> None" and "count_attr s = Some c" and "\<not> is_phenom s"
    and "K = (if c = 1 then kwargs s ++ fst (carryover_kwargs e s) else kwargs s)"
    and "K ''tanh_model'' = None" and "K ''gaussian_model'' = None"
    and "K ''parametric_model'' = None"
    and "K ''load_ics'' = Some (PBool True)" and "K ''problem_type'' \<noteq> None"
  shows "reboot e s =
     Inr (s\<lparr>kwargs := K, pf_attr := Some (ParameterFile e K), medium_attr := None,
            history_attr := None,
            carryover_attr := (if c = 1 then Some (fst (carryover_kwargs e s))
                               else carryover_attr s)\<rparr>)"
proof -
  have cnt: "count s = (c, s)" using assms(5) by (simp add: count_def)
  let ?s2 = "if c = 1
             then s\<lparr>carryover_attr := Some (fst (carryover_kwargs e s)), kwargs := K\<rparr>
             else s"
  let ?s0 = "?s2\<lparr>pf_attr := None, medium_attr := None, history_attr := None\<rparr>"
  have k2: "kwargs ?s2 = K" using assms(7) by simp
  obtain p0 m h where ex: "pf_attr s = Some p0" "medium_attr s = Some m" "history_attr s = Some h"
    using assms(1-3) by blast
  have r: "reboot e s = init e ?s0 K"
    using ex assms(7) cnt carryover_kwargs_snd [OF assms(2), of e]
    by (simp add: reboot_def Let_def)
  have i: "init e ?s0 K = Inr (?s0\<lparr>is_phenom := False, kwargs := K,
                               pf_attr := Some (ParameterFile e K)\<rparr>)"
    by (rule init_plain) (use assms in simp_all)
  show ?thesis
    unfolding r i using assms(6,7) by (cases "c = 1") simp_all
qed

lemma iterate_count:
  assumes "iterate e s = Inr s2"
  shows "count_val s2 = count_val s + 1"
proof -
  have g: "count_val (snd (get_medium e s)) = count_val s"
    by (simp add: get_medium_def count_val_def Let_def split: option.splits)
  from assms show ?thesis
    by (auto simp: iterate_def Let_def ebind_def count_eq get_pf_eq count_val_def
        get_medium_def split: sum.splits option.splits)
qed

text \<open>
  Claim C8. On an object that has finished an iteration and is not phenomenological,
  whose configuration \<open>K\<close> (the keyword arguments, with the carryover merged in when the
  count is 1) names no phenomenological model and holds the defaults \<^verbatim>\<open>__init__\<close> sets,
  \<^verbatim>\<open>reboot\<close> returns the same object except that: the Medium and the history are gone; the
  parameter file is a new one made from \<open>K\<close>; and, when the count is 1 and only then, the
  keyword arguments are \<open>K\<close> and the carryover is memoized. The suite, the count and every
  other attribute are as before. The carryover read after the reboot is the one read
  before it (when it was memoized before, or the count is 1), and the iteration that
  follows raises the count by one, so no later reboot of the run finds the count at 1.
\<close>

theorem reboot_frame:
  assumes "pf_attr s \<noteq> None" and "medium_attr s \<noteq> None" and "history_attr s \<noteq> None"
    and "suite_attr s \<noteq> None" and "count_attr s = Some c" and "\<not> is_phenom s"
    and "K = (if c = 1 then kwargs s ++ fst (carryover_kwargs e s) else kwargs s)"
    and "K ''tanh_model'' = None" and "K ''gaussian_model'' = None"
    and "K ''parametric_model'' = None"
    and "K ''load_ics'' = Some (PBool True)" and "K ''problem_type'' \<noteq> None"
    and "s' = s\<lparr>kwargs := K, pf_attr := Some (ParameterFile e K), medium_attr := None,
                 history_attr := None,
                 carryover_attr := (if c = 1 then Some (fst (carryover_kwargs e s))
                                    else carryover_attr s)\<rparr>"
  shows "reboot e s = Inr s'
    \<and> suite_attr s' = suite_attr s \<and> count_attr s' = Some c
    \<and> (c = 1 \<or> carryover_attr s \<noteq> None \<longrightarrow>
          fst (carryover_kwargs e s') = fst (carryover_kwargs e s))
    \<and> (c \<noteq> 1 \<longrightarrow> kwargs s' = kwargs s \<and> carryover_attr s' = carryover_attr s)
    \<and> (\<forall>s2. iterate e s' = Inr s2 \<longrightarrow> count_val s2 = c + 1)"
proof -
  have r: "reboot e s = Inr s'"
    unfolding assms(13) by (rule reboot_result) (use assms in simp_all)
  have a: "suite_attr s' = suite_attr s" "count_attr s' = Some c"
    using assms(5,13) by simp_all
  have b: "fst (carryover_kwargs e s') = fst (carryover_kwargs e s)"
    if "c = 1 \<or> carryover_attr s \<noteq> None"
  proof (cases "c = 1")
    case True
    then have "carryover_attr s' = Some (fst (carryover_kwargs e s))"
      using assms(13) by simp
    then show ?thesis by (simp add: carryover_kwargs_def)
  next
    case False
    with that obtain ck where ck: "carryover_attr s = Some ck" by blast
    with False have "carryover_attr s' = Some ck" using assms(13) by simp
    with ck show ?thesis by (simp add: carryover_kwargs_def)
  qed
  have d: "kwargs s' = kwargs s \<and> carryover_attr s' = carryover_attr s" if "c \<noteq> 1"
    using that assms(7,13) by simp
  have f: "count_val s2 = c + 1" if "iterate e s' = Inr s2" for s2
    using iterate_count [OF that] a(2) by (simp add: count_val_def)
  from r a b d f show ?thesis by blast
qed

lemma carryover_sample:
  "fst (carryover_kwargs sample_env sim_after_first) = sample_carryover"
  by (simp add: carryover_kwargs_def get_medium_def Let_def sim_after_first_def blank_def
      sample_medium_def sample_field_def sample_pop_def sample_halos_def sample_carryover_def
      psm_key_def string_of_nat.simps enumerate_eq_zip upt_conv_Cons)

theorem reboot_frame_witness:
  "fst (carryover_kwargs sample_env sim_after_first) = sample_carryover
   \<and> reboot sample_env sim_after_first
       = Inr (sim_after_first\<lparr>kwargs := kwargs sim_after_first ++ sample_carryover,
                pf_attr := Some sample_pf, medium_attr := None, history_attr := None,
                carryover_attr := Some sample_carryover\<rparr>)
   \<and> suite_attr sim_after_first = Some [hist_prev]
   \<and> count_attr sim_after_first = Some 1"
proof -
  let ?K = "kwargs sim_after_first ++ sample_carryover"
  let ?s' = "sim_after_first\<lparr>kwargs := ?K, pf_attr := Some (ParameterFile sample_env ?K),
      medium_attr := None, history_attr := None,
      carryover_attr := (if (1::int) = 1
         then Some (fst (carryover_kwargs sample_env sim_after_first))
         else carryover_attr sim_after_first)\<rparr>"
  have a: "pf_attr sim_after_first \<noteq> None" "medium_attr sim_after_first \<noteq> None"
    "history_attr sim_after_first \<noteq> None" "suite_attr sim_after_first \<noteq> None"
    "count_attr sim_after_first = Some 1" "\<not> is_phenom sim_after_first"
    by (simp_all add: sim_after_first_def blank_def)
  have K: "?K = (if (1::int) = 1
      then kwargs sim_after_first ++ fst (carryover_kwargs sample_env sim_after_first)
      else kwargs sim_after_first)"
    by (simp add: carryover_sample)
  have k: "?K ''tanh_model'' = None" "?K ''gaussian_model'' = None"
    "?K ''parametric_model'' = None" "?K ''load_ics'' = Some (PBool True)"
    "?K ''problem_type'' \<noteq> None"
    by (simp_all add: map_add_def sample_carryover_def sim_after_first_def blank_def)
  have "reboot sample_env sim_after_first = Inr ?s'"
    using reboot_frame [OF a K k, of ?s'] by simp
  moreover have "ParameterFile sample_env ?K = sample_pf"
    by (simp add: sample_env_def)
  moreover have "suite_attr sim_after_first = Some [hist_prev]"
    by (simp add: sim_after_first_def blank_def)
  ultimately show ?thesis
    using a(5) by (simp add: carryover_sample)
qed

subsection \<open>Calling \<^verbatim>\<open>run\<close> twice\<close>

lemma Global21cm_plain: "Global21cm plain_env Map.empty = Inr plain_fresh"
  by (simp add: Global21cm_def init_def check_if_phenom_def ebind_def Let_def get_pf_def
      blank_def plain_fresh_def plain_env_def sample_env_def plain_pf_def sample_pf_def)

lemma init_suite: "init e s kw = Inr s' \<Longrightarrow> suite_attr s' \<noteq> None"
  by (auto simp: init_def ebind_def Let_def check_if_phenom_def get_pf_def count_def
      split: sum.splits if_splits option.splits)

lemmas evaluate_iterate =
  iterate_def Let_def get_medium_def get_pf_def blank_def
  plain_env_def sample_env_def init_dTb_def ebind_def item_def getitem_def
  sample_medium_def sample_step_def augment_step_def lya_lw_fluxes_def sample_field_def
  sample_pop_def plain_pf_def sample_pf_def enumerate_eq_zip upt_conv_Cons
  build_history_def sample_sort_history_def count_def map_add_def

lemma run_without_feedback:
  assumes "\<not> is_phenom s" and "suite_attr s = Some []" and "iterate e s = Inr s2"
    and "feedback_LW_Mmin (fst (get_pf e s2)) = MminNone"
  shows "run (Suc n) e s = Some (Inr (snd (get_pf e s2)))"
  using assms by (simp add: run.simps)

lemma iterate_fresh:
  "\<exists>s h. iterate plain_env plain_fresh = Inr s \<and> pf_attr s = Some plain_pf
        \<and> medium_attr s = Some sample_medium_done
        \<and> \<not> is_phenom s \<and> history_attr s = Some h \<and> h ''dTb'' = Some [- 10, - 12]
        \<and> suite_attr s = Some [] \<and> count_attr s = Some 1"
  by (simp add: plain_fresh_def sample_medium_done_def evaluate_iterate)

lemma iterate_done:
  assumes "medium_attr s = Some sample_medium_done" and "pf_attr s = Some plain_pf"
    and "count_attr s = Some c"
  shows "\<exists>s2 h. iterate plain_env s = Inr s2 \<and> pf_attr s2 = Some plain_pf
        \<and> is_phenom s2 = is_phenom s \<and> history_attr s2 = Some h
        \<and> h ''dTb'' = Some [- 10, - 10]
        \<and> suite_attr s2 = suite_attr s \<and> count_attr s2 = Some (c + 1)"
  using assms
  by (simp add: sample_medium_done_def evaluate_iterate)

lemma plain_once_run:
  "run (Suc 0) plain_env plain_fresh = Some (Inr plain_once) \<and> pf_attr plain_once = Some plain_pf
     \<and> medium_attr plain_once = Some sample_medium_done
     \<and> \<not> is_phenom plain_once \<and> (\<exists>h. history_attr plain_once = Some h \<and> h ''dTb'' = Some [- 10, - 12])
     \<and> suite_attr plain_once = Some [] \<and> count_attr plain_once = Some 1"
proof -
  from iterate_fresh obtain s h where s: "iterate plain_env plain_fresh = Inr s"
    "pf_attr s = Some plain_pf" "medium_attr s = Some sample_medium_done" "\<not> is_phenom s"
    "history_attr s = Some h" "h ''dTb'' = Some [- 10, - 12]"
    "suite_attr s = Some []" "count_attr s = Some 1" by blast
  have g: "get_pf plain_env s = (plain_pf, s)" using s(2) by (simp add: get_pf_def)
  have "run (Suc 0) plain_env plain_fresh = Some (Inr (snd (get_pf plain_env s)))"
    by (rule run_without_feedback [OF _ _ s(1)])
      (simp_all add: plain_fresh_def blank_def g plain_pf_def)
  then have r: "run (Suc 0) plain_env plain_fresh = Some (Inr s)" by (simp add: g)
  then have "plain_once = s" by (simp add: plain_once_def)
  with r s show ?thesis by simp
qed

lemma plain_twice_run:
  "run (Suc 0) plain_env plain_once = Some (Inr plain_twice)
     \<and> (\<exists>h. history_attr plain_twice = Some h \<and> h ''dTb'' = Some [- 10, - 10])
     \<and> count_attr plain_twice = Some 2"
proof -
  from plain_once_run have o: "pf_attr plain_once = Some plain_pf"
    "medium_attr plain_once = Some sample_medium_done" "\<not> is_phenom plain_once"
    "suite_attr plain_once = Some []" "count_attr plain_once = Some 1" by simp_all
  from iterate_done [OF o(2) o(1) o(5)] obtain s h where s: "iterate plain_env plain_once = Inr s"
    "pf_attr s = Some plain_pf" "history_attr s = Some h" "h ''dTb'' = Some [- 10, - 10]"
    "count_attr s = Some (1 + 1)" by blast
  have g: "get_pf plain_env s = (plain_pf, s)" using s(2) by (simp add: get_pf_def)
  have "run (Suc 0) plain_env plain_once = Some (Inr (snd (get_pf plain_env s)))"
    by (rule run_without_feedback [OF o(3) o(4) s(1)]) (simp add: g plain_pf_def)
  then have r: "run (Suc 0) plain_env plain_once = Some (Inr s)" by (simp add: g)
  then have "plain_twice = s" by (simp add: plain_twice_def)
  with r s show ?thesis by simp
qed

text \<open>
  Claim C2 at a failing input: an object built by \<^verbatim>\<open>__init__\<close> without feedback, on which
  \<^verbatim>\<open>run\<close> is called twice. \<^verbatim>\<open>__init__\<close> always creates \<^verbatim>\<open>_suite\<close>, so the test of line 216
  (a history, and no \<^verbatim>\<open>_suite\<close> attribute) is false after the first call: the second call
  runs the whole pass again on the Medium the first call left. It zeroes the fluxes in
  the Medium's lists and recomputes the brightness temperature of every entry from them
  (lines 236 to 242), so on the sample Medium, which keeps its lists, the history of the
  second call differs from that of the first, and the count goes from 1 to 2.
\<close>

theorem run_twice_reruns:
  "Global21cm plain_env Map.empty = Inr plain_fresh
   \<and> run (Suc 0) plain_env plain_fresh = Some (Inr plain_once)
   \<and> suite_attr plain_once = Some []
   \<and> count_attr plain_once = Some 1
   \<and> (\<exists>h. history_attr plain_once = Some h \<and> h ''dTb'' = Some [- 10, - 12])
   \<and> run (Suc 0) plain_env plain_once = Some (Inr plain_twice)
   \<and> count_attr plain_twice = Some 2
   \<and> (\<exists>h. history_attr plain_twice = Some h \<and> h ''dTb'' = Some [- 10, - 10])"
  using Global21cm_plain plain_once_run plain_twice_run by blast

end
